theory Spec2Isabelle
  imports Complex_Main "HOL-Library.Word"
begin

unbundle bit_operations_syntax

section \<open>Numbers and points\<close>

text \<open>
  JavaScript numbers are modelled as \<^typ>\<open>real\<close>: every arithmetic operation of the
  source is the exact operation on reals, so rounding, NaN and the infinities of IEEE
  doubles are outside the model. Integer-valued quantities that the source treats as
  loop bounds or array indices (point counts, octave counts, viewport size) are
  \<^typ>\<open>nat\<close> or \<^typ>\<open>int\<close>; the 32-bit state of the PRNG is a \<^typ>\<open>32 word\<close>.
  An axis selector is the JavaScript string itself: the source compares it with
  \<open>'x'\<close> and \<open>'y'\<close> and treats every other value as the z axis.
\<close>

record point3 =
  px :: real
  py :: real
  pz :: real

type_synonym u32 = "32 word"

subsection \<open>Math helpers of the host language\<close>

definition js_or :: "real \<Rightarrow> real \<Rightarrow> real" where
  \<comment> \<open>\<open>a || b\<close> on numbers: \<open>0\<close> is falsy\<close>
  "js_or a b = (if a = 0 then b else a)"

definition js_pow :: "real \<Rightarrow> real \<Rightarrow> real" where
  \<comment> \<open>\<open>Math.pow\<close> on a base \<open>\<ge> 0\<close>: \<open>pow(b, 0) = 1\<close> for every \<open>b\<close>, \<open>pow(0, e) = 0\<close>
      for \<open>e > 0\<close>. Both call sites pass a base \<open>\<ge> 0\<close>.\<close>
  "js_pow b e = (if e = 0 then 1 else b powr e)"

definition js_round :: "real \<Rightarrow> int" where
  \<comment> \<open>\<open>Math.round\<close>: halves round towards \<open>+\<infinity>\<close>\<close>
  "js_round v = \<lfloor>v + 1 / 2\<rfloor>"

definition js_atan2 :: "real \<Rightarrow> real \<Rightarrow> real" where
  "js_atan2 b a =
     (if a > 0 then arctan (b / a)
      else if a < 0 then (if b \<ge> 0 then arctan (b / a) + pi else arctan (b / a) - pi)
      else if b > 0 then pi / 2
      else if b < 0 then - (pi / 2)
      else 0)"

section \<open>Mulberry32\<close>

text \<open>
  \<open>mulberry32(a)\<close> returns a closure over the 32-bit state \<open>a\<close>. One call of the closure
  is \<open>mulberry32_next\<close>: it returns the draw in \<open>[0,1)\<close> and the new state.
  \<open>a |= 0\<close> and the trailing \<open>| 0\<close>, \<open>^\<close> and \<open>Math.imul\<close> reduce to 32 bits, which is
  arithmetic on \<^typ>\<open>u32\<close>; \<open>>>>\<close> is the logical shift \<^const>\<open>drop_bit\<close>.
\<close>

definition mulberry32 :: "int \<Rightarrow> u32" where
  "mulberry32 a = word_of_int a"

definition mulberry32_out :: "u32 \<Rightarrow> u32" where
  "mulberry32_out a =
     (let t = (a XOR drop_bit 15 a) * (1 OR a);
          t = (t + (t XOR drop_bit 7 t) * (61 OR t)) XOR t
      in t XOR drop_bit 14 t)"

definition mulberry32_next :: "u32 \<Rightarrow> real \<times> u32" where
  "mulberry32_next a0 =
     (let a = a0 + 0x6D2B79F5
      in (real (unat (mulberry32_out a)) / 4294967296, a))"

section \<open>Noise field (noise.js)\<close>

record noise_state =
  perm :: "nat list"
  seeded :: bool

definition initial_noise :: noise_state where
  \<comment> \<open>\<open>new Uint8Array(512)\<close>, \<open>_seeded = false\<close>\<close>
  "initial_noise = \<lparr>perm = replicate 512 0, seeded = False\<rparr>"

definition grad3 :: "(real \<times> real \<times> real) list" where
  "grad3 =
     [(1,1,0), (-1,1,0), (1,-1,0), (-1,-1,0),
      (1,0,1), (-1,0,1), (1,0,-1), (-1,0,-1),
      (0,1,1), (0,-1,1), (0,1,-1), (0,-1,-1)]"

text \<open>The Fisher-Yates loop \<open>for (i = 255; i > 0; i--)\<close>, counted by \<open>i\<close>.\<close>

fun shuffle :: "nat \<Rightarrow> nat list \<Rightarrow> u32 \<Rightarrow> nat list" where
  "shuffle 0 p a = p"
| "shuffle (Suc n) p a =
     (let i = Suc n;
          (r, a') = mulberry32_next a;
          j = nat \<lfloor>r * real (i + 1)\<rfloor>;
          tmp = p ! i
      in shuffle n ((p[i := p ! j])[j := tmp]) a')"

definition noiseSeed :: "int \<Rightarrow> noise_state" where
  \<comment> \<open>\<open>seed(s)\<close> of noise.js, imported elsewhere as \<open>noiseSeed\<close>; it overwrites the whole
      table, so the previous state is no argument\<close>
  "noiseSeed s =
     (let p = shuffle 255 [0..<256] (mulberry32 s)
      in \<lparr>perm = map (\<lambda>i. p ! (i mod 256)) [0..<512], seeded = True\<rparr>)"

definition ensureSeeded :: "noise_state \<Rightarrow> noise_state" where
  "ensureSeeded st = (if \<not> seeded st then noiseSeed 0 else st)"

definition F3 :: real where "F3 = 1 / 3"
definition G3 :: real where "G3 = 1 / 6"

definition dot3 :: "real \<times> real \<times> real \<Rightarrow> real \<Rightarrow> real \<Rightarrow> real \<Rightarrow> real" where
  "dot3 g a b c = (case g of (g0, g1, g2) \<Rightarrow> g0 * a + g1 * b + g2 * c)"

definition corner :: "real \<Rightarrow> real \<Rightarrow> real \<Rightarrow> nat \<Rightarrow> real" where
  \<comment> \<open>one of the four blocks \<open>let t = 0.6 - x*x - y*y - z*z; if (t < 0) n = 0; else ...\<close>\<close>
  "corner a b c gi =
     (let t = 0.6 - a * a - b * b - c * c
      in if t < 0 then 0 else (let t = t * t in t * t * dot3 (grad3 ! gi) a b c))"

definition simplex_offsets :: "real \<Rightarrow> real \<Rightarrow> real \<Rightarrow> (nat \<times> nat \<times> nat) \<times> (nat \<times> nat \<times> nat)" where
  "simplex_offsets x0 y0 z0 =
     (if x0 \<ge> y0 then
        (if y0 \<ge> z0 then ((1,0,0), (1,1,0))
         else if x0 \<ge> z0 then ((1,0,0), (1,0,1))
         else ((0,0,1), (1,0,1)))
      else
        (if y0 < z0 then ((0,0,1), (0,1,1))
         else if x0 < z0 then ((0,1,0), (0,1,1))
         else ((0,1,0), (1,1,0))))"

text \<open>
  \<open>simplex3\<close> starts with \<open>ensureSeeded()\<close>. That call is idempotent and the table is
  read nowhere else, so the model reads the table of \<open>ensureSeeded st\<close> and the state
  after the call is \<open>ensureSeeded st\<close>. \<open>i & 255\<close> on an integer-valued number is
  \<open>i mod 256\<close>.
\<close>

definition simplex3 :: "noise_state \<Rightarrow> real \<Rightarrow> real \<Rightarrow> real \<Rightarrow> real" where
  "simplex3 st xin yin zin =
     (let tbl = perm (ensureSeeded st);
          s = (xin + yin + zin) * F3;
          i = \<lfloor>xin + s\<rfloor>;
          j = \<lfloor>yin + s\<rfloor>;
          k = \<lfloor>zin + s\<rfloor>;
          t = real_of_int (i + j + k) * G3;
          X0 = real_of_int i - t;
          Y0 = real_of_int j - t;
          Z0 = real_of_int k - t;
          x0 = xin - X0;
          y0 = yin - Y0;
          z0 = zin - Z0;
          ((i1, j1, k1), (i2, j2, k2)) = simplex_offsets x0 y0 z0;
          x1 = x0 - real i1 + G3;
          y1 = y0 - real j1 + G3;
          z1 = z0 - real k1 + G3;
          x2 = x0 - real i2 + 2 * G3;
          y2 = y0 - real j2 + 2 * G3;
          z2 = z0 - real k2 + 2 * G3;
          x3 = x0 - 1 + 3 * G3;
          y3 = y0 - 1 + 3 * G3;
          z3 = z0 - 1 + 3 * G3;
          ii = nat (i mod 256);
          jj = nat (j mod 256);
          kk = nat (k mod 256);
          gi0 = tbl ! (ii + tbl ! (jj + tbl ! kk)) mod 12;
          gi1 = tbl ! (ii + i1 + tbl ! (jj + j1 + tbl ! (kk + k1))) mod 12;
          gi2 = tbl ! (ii + i2 + tbl ! (jj + j2 + tbl ! (kk + k2))) mod 12;
          gi3 = tbl ! (ii + 1 + tbl ! (jj + 1 + tbl ! (kk + 1))) mod 12;
          n0 = corner x0 y0 z0 gi0;
          n1 = corner x1 y1 z1 gi1;
          n2 = corner x2 y2 z2 gi2;
          n3 = corner x3 y3 z3 gi3
      in 32 * (n0 + n1 + n2 + n3))"

record fbm_opts =
  octaves :: nat
  persistence :: real
  lacunarity :: real
  frequency :: real
  amplitude :: real

definition default_opts :: fbm_opts where
  \<comment> \<open>the destructuring defaults of \<open>fbm3\<close>\<close>
  "default_opts = \<lparr>octaves = 4, persistence = 0.5, lacunarity = 2, frequency = 1, amplitude = 1\<rparr>"

text \<open>
  The octave loop of \<open>fbm3\<close>; the first argument counts the remaining iterations.
  With \<open>octaves = 0\<close> the source divides \<open>0 / 0\<close> (NaN), which the model cannot express.
\<close>

fun fbm3_loop ::
  "nat \<Rightarrow> noise_state \<Rightarrow> real \<Rightarrow> real \<Rightarrow> real \<Rightarrow> fbm_opts \<Rightarrow> real \<Rightarrow> real \<Rightarrow> real \<Rightarrow> real \<Rightarrow> real"
where
  "fbm3_loop 0 st a b c opts val amp freq maxAmp = val / maxAmp"
| "fbm3_loop (Suc n) st a b c opts val amp freq maxAmp =
     fbm3_loop n st a b c opts
       (val + simplex3 st (a * freq) (b * freq) (c * freq) * amp)
       (amp * persistence opts) (freq * lacunarity opts) (maxAmp + amp)"

definition fbm3 :: "noise_state \<Rightarrow> real \<Rightarrow> real \<Rightarrow> real \<Rightarrow> fbm_opts \<Rightarrow> real" where
  "fbm3 st a b c opts =
     fbm3_loop (octaves opts) st a b c opts 0 (amplitude opts) (frequency opts) 0"

definition fbm3vec :: "noise_state \<Rightarrow> real \<Rightarrow> real \<Rightarrow> real \<Rightarrow> fbm_opts \<Rightarrow> point3" where
  "fbm3vec st a b c opts =
     \<lparr>px = fbm3 st a b c opts,
      py = fbm3 st (a + 31.416) (b + 47.853) (c + 12.679) opts,
      pz = fbm3 st (a + 74.205) (b + 13.842) (c + 56.917) opts\<rparr>"

definition curl3 :: "noise_state \<Rightarrow> real \<Rightarrow> real \<Rightarrow> real \<Rightarrow> fbm_opts \<Rightarrow> point3" where
  "curl3 st a b c opts =
     (let eps = 0.001;
          OX = 31.416; OY = 47.853; OZ = 12.679;
          PX = 74.205; PY = 13.842; PZ = 56.917;
          dNz_dy = (fbm3 st (a + PX) ((b + eps) + PY) (c + PZ) opts
                    - fbm3 st (a + PX) ((b - eps) + PY) (c + PZ) opts) / (2 * eps);
          dNy_dz = (fbm3 st (a + OX) (b + OY) ((c + eps) + OZ) opts
                    - fbm3 st (a + OX) (b + OY) ((c - eps) + OZ) opts) / (2 * eps);
          dNx_dz = (fbm3 st a b (c + eps) opts - fbm3 st a b (c - eps) opts) / (2 * eps);
          dNz_dx = (fbm3 st ((a + eps) + PX) (b + PY) (c + PZ) opts
                    - fbm3 st ((a - eps) + PX) (b + PY) (c + PZ) opts) / (2 * eps);
          dNy_dx = (fbm3 st ((a + eps) + OX) (b + OY) (c + OZ) opts
                    - fbm3 st ((a - eps) + OX) (b + OY) (c + OZ) opts) / (2 * eps);
          dNx_dy = (fbm3 st a (b + eps) c opts - fbm3 st a (b - eps) c opts) / (2 * eps)
      in \<lparr>px = dNz_dy - dNy_dz, py = dNx_dz - dNz_dx, pz = dNy_dx - dNx_dy\<rparr>)"

section \<open>The shared parameter object (main.js)\<close>

record params =
  shapeType :: string
  count :: nat
  radiusX :: real
  radiusY :: real
  radiusZ :: real
  torusMajor :: real
  torusMinor :: real
  sweptRadius :: real
  fillMode :: string
  seed :: int
  densityFalloff :: real
  densityNoise :: real
  densityNoiseFreq :: real
  subFlocks :: int
  subFlockSpread :: real
  subFlockSizeVar :: real
  subFlockBridge :: real
  noiseFreq :: real
  noiseAmp :: real
  noiseOctaves :: nat
  noisePersistence :: real
  noiseLacunarity :: real
  noiseOffsetX :: real
  noiseOffsetY :: real
  noiseOffsetZ :: real
  smoothEnabled :: bool
  smoothFreq :: real
  smoothAmp :: real
  twistEnabled :: bool
  twistAmount :: real
  twistAxis :: string
  taperEnabled :: bool
  taperStart :: real
  taperEnd :: real
  taperAxis :: string
  bendEnabled :: bool
  bendAngle :: real
  bendAxis :: string
  waveEnabled :: bool
  waveFreq :: real
  waveAmp :: real
  waveAxis :: string
  wavePhase :: real
  camRotX :: real
  camRotY :: real
  camRotZ :: real
  camZoom :: real
  projType :: string
  camFOV :: real
  birdScale :: real
  depthScale :: real
  orientToFlow :: bool
  orientJitter :: real
  curlFlowFreq :: real
  curlFlowOctaves :: nat
  poseVariation :: bool
  poseNoiseFreq :: real
  depthOpacity :: real
  depthOpacityCurve :: real
  darkBandEnabled :: bool
  darkBandGridSize :: real
  width :: nat
  height :: nat

definition main_params :: params where
  \<comment> \<open>the initial \<open>params\<close> object of main.js, on a 800 x 600 viewport\<close>
  "main_params =
     \<lparr>shapeType = ''ellipsoid'', count = 800, radiusX = 40, radiusY = 30, radiusZ = 100,
      torusMajor = 60, torusMinor = 20, sweptRadius = 15, fillMode = ''surface'', seed = 42,
      densityFalloff = 2, densityNoise = 0.3, densityNoiseFreq = 0.02,
      subFlocks = 1, subFlockSpread = 0.6, subFlockSizeVar = 0.3, subFlockBridge = 0.15,
      noiseFreq = 0.02, noiseAmp = 20, noiseOctaves = 4, noisePersistence = 0.5,
      noiseLacunarity = 2, noiseOffsetX = 0, noiseOffsetY = 0, noiseOffsetZ = 0,
      smoothEnabled = False, smoothFreq = 0.005, smoothAmp = 30,
      twistEnabled = False, twistAmount = 0.5, twistAxis = ''z'',
      taperEnabled = False, taperStart = 1, taperEnd = 0.3, taperAxis = ''z'',
      bendEnabled = False, bendAngle = 0.5, bendAxis = ''x'',
      waveEnabled = False, waveFreq = 0.05, waveAmp = 10, waveAxis = ''z'', wavePhase = 0,
      camRotX = 0.3, camRotY = 0.5, camRotZ = 0, camZoom = 2.5, projType = ''ortho'',
      camFOV = 400, birdScale = 1, depthScale = 0.5, orientToFlow = True, orientJitter = 0.2,
      curlFlowFreq = 0.015, curlFlowOctaves = 2, poseVariation = True, poseNoiseFreq = 0.01,
      depthOpacity = 0.3, depthOpacityCurve = 1, darkBandEnabled = True, darkBandGridSize = 20,
      width = 800, height = 600\<rparr>"

section \<open>Deformer stack (deformers.js)\<close>

record displace_opts = fbm_opts +
  offsetX :: real
  offsetY :: real
  offsetZ :: real

definition noiseDisplace :: "noise_state \<Rightarrow> point3 list \<Rightarrow> displace_opts \<Rightarrow> point3 list" where
  "noiseDisplace st points opts =
     map (\<lambda>p.
       let nx = px p * frequency opts + offsetX opts;
           ny = py p * frequency opts + offsetY opts;
           nz = pz p * frequency opts + offsetZ opts;
           disp = fbm3vec st nx ny nz
                    \<lparr>octaves = octaves opts, persistence = persistence opts,
                     lacunarity = lacunarity opts, frequency = 1, amplitude = 1\<rparr>
       in \<lparr>px = px p + px disp * amplitude opts,
           py = py p + py disp * amplitude opts,
           pz = pz p + pz disp * amplitude opts\<rparr>) points"

definition getAxisVal :: "string \<Rightarrow> point3 \<Rightarrow> real" where
  "getAxisVal axis p = (if axis = ''x'' then px p else if axis = ''y'' then py p else pz p)"

text \<open>
  The running minimum and maximum of a scan that starts from \<open>(Infinity, -Infinity)\<close>:
  after the first value both are that value. On the empty list the source keeps the two
  infinities; every caller then maps over the same empty list and never reads them, and
  the model returns \<open>(0, 0)\<close> there.
\<close>

fun min_max :: "real list \<Rightarrow> real \<times> real" where
  "min_max [] = (0, 0)"
| "min_max (v # vs) =
     foldl (\<lambda>(mn, mx) w. (if w < mn then w else mn, if w > mx then w else mx)) (v, v) vs"

definition getBounds :: "string \<Rightarrow> point3 list \<Rightarrow> real \<times> real" where
  "getBounds axis points = min_max (map (getAxisVal axis) points)"

definition setFromRotation :: "point3 \<Rightarrow> real \<Rightarrow> string \<Rightarrow> point3" where
  "setFromRotation p ang ax =
     (let c = cos ang; s = sin ang
      in if ax = ''x'' then \<lparr>px = px p, py = py p * c - pz p * s, pz = py p * s + pz p * c\<rparr>
         else if ax = ''y'' then \<lparr>px = px p * c + pz p * s, py = py p, pz = - px p * s + pz p * c\<rparr>
         else \<lparr>px = px p * c - py p * s, py = px p * s + py p * c, pz = pz p\<rparr>)"

definition scalePerp :: "point3 \<Rightarrow> real \<Rightarrow> string \<Rightarrow> point3" where
  "scalePerp p s axis =
     (if axis = ''x'' then \<lparr>px = px p, py = py p * s, pz = pz p * s\<rparr>
      else if axis = ''y'' then \<lparr>px = px p * s, py = py p, pz = pz p * s\<rparr>
      else \<lparr>px = px p * s, py = py p * s, pz = pz p\<rparr>)"

definition getPerpComponents :: "point3 \<Rightarrow> string \<Rightarrow> real \<times> real" where
  \<comment> \<open>the pair \<open>(p1, p2)\<close>\<close>
  "getPerpComponents p axis =
     (if axis = ''x'' then (pz p, py p)
      else if axis = ''y'' then (pz p, px p)
      else (py p, px p))"

definition twist :: "point3 list \<Rightarrow> real \<Rightarrow> string \<Rightarrow> point3 list" where
  "twist points amount axis =
     (let (bmin, bmax) = getBounds axis points
      in map (\<lambda>p.
           let t = (getAxisVal axis p - bmin) / js_or (bmax - bmin) 1;
               ang = (t - 0.5) * amount * pi * 2
           in setFromRotation p ang axis) points)"

definition taper :: "point3 list \<Rightarrow> real \<Rightarrow> real \<Rightarrow> string \<Rightarrow> point3 list" where
  "taper points startScale endScale axis =
     (let (bmin, bmax) = getBounds axis points
      in map (\<lambda>p.
           let t = (getAxisVal axis p - bmin) / js_or (bmax - bmin) 1;
               s = startScale + (endScale - startScale) * t
           in scalePerp p s axis) points)"

definition bend :: "point3 list \<Rightarrow> real \<Rightarrow> string \<Rightarrow> point3 list" where
  "bend points ang axis =
     (let (bmin, bmax) = getBounds axis points;
          len = js_or (bmax - bmin) 1
      in if \<bar>ang\<bar> < 0.001 then points
         else
           (let radius = len / ang
            in map (\<lambda>p.
                 let axisPos = getAxisVal axis p;
                     t = (axisPos - bmin) / len;
                     theta = (t - 0.5) * ang;
                     (p1, p2) = getPerpComponents p axis
                 in if axis = ''x'' then
                      \<lparr>px = (radius + p1) * sin theta + bmin + len * 0.5,
                       py = py p,
                       pz = (radius + p1) * cos theta - radius\<rparr>
                    else if axis = ''y'' then
                      \<lparr>px = px p,
                       py = (radius + p1) * sin theta + bmin + len * 0.5,
                       pz = (radius + p1) * cos theta - radius\<rparr>
                    else
                      \<lparr>px = px p,
                       py = (radius + p1) * sin theta,
                       pz = (radius + p1) * cos theta - radius + bmin + len * 0.5\<rparr>) points))"

definition wave :: "point3 list \<Rightarrow> real \<Rightarrow> real \<Rightarrow> string \<Rightarrow> real \<Rightarrow> point3 list" where
  "wave points freq amp axis phase =
     map (\<lambda>p.
       let axisVal = (if axis = ''x'' then px p else if axis = ''y'' then py p else pz p);
           displacement = amp * sin (axisVal * freq + phase)
       in if axis = ''x'' then \<lparr>px = px p, py = py p + displacement, pz = pz p\<rparr>
          else if axis = ''y'' then \<lparr>px = px p + displacement, py = py p, pz = pz p\<rparr>
          else \<lparr>px = px p, py = py p + displacement, pz = pz p\<rparr>) points"

text \<open>The six stages of \<open>applyDeformers\<close>, each as the source guards it.\<close>

definition smoothStage :: "noise_state \<Rightarrow> params \<Rightarrow> point3 list \<Rightarrow> point3 list" where
  "smoothStage st params pts =
     (if smoothEnabled params \<and> smoothAmp params > 0 then
        noiseDisplace st pts
          \<lparr>octaves = 1, persistence = 0.5, lacunarity = 2,
           frequency = smoothFreq params, amplitude = smoothAmp params,
           offsetX = js_or (noiseOffsetX params) 0 + 200,
           offsetY = js_or (noiseOffsetY params) 0 + 200,
           offsetZ = js_or (noiseOffsetZ params) 0 + 200\<rparr>
      else pts)"

definition noiseStage :: "noise_state \<Rightarrow> params \<Rightarrow> point3 list \<Rightarrow> point3 list" where
  "noiseStage st params pts =
     (if noiseAmp params > 0 then
        noiseDisplace st pts
          \<lparr>octaves = noiseOctaves params, persistence = noisePersistence params,
           lacunarity = noiseLacunarity params,
           frequency = noiseFreq params, amplitude = noiseAmp params,
           offsetX = noiseOffsetX params,
           offsetY = noiseOffsetY params,
           offsetZ = noiseOffsetZ params\<rparr>
      else pts)"

definition twistStage :: "params \<Rightarrow> point3 list \<Rightarrow> point3 list" where
  "twistStage params pts =
     (if twistEnabled params then twist pts (twistAmount params) (twistAxis params) else pts)"

definition taperStage :: "params \<Rightarrow> point3 list \<Rightarrow> point3 list" where
  "taperStage params pts =
     (if taperEnabled params
      then taper pts (taperStart params) (taperEnd params) (taperAxis params) else pts)"

definition bendStage :: "params \<Rightarrow> point3 list \<Rightarrow> point3 list" where
  "bendStage params pts =
     (if bendEnabled params then bend pts (bendAngle params) (bendAxis params) else pts)"

definition waveStage :: "params \<Rightarrow> point3 list \<Rightarrow> point3 list" where
  "waveStage params pts =
     (if waveEnabled params
      then wave pts (waveFreq params) (waveAmp params) (waveAxis params) (wavePhase params)
      else pts)"

text \<open>
  \<open>applyDeformers\<close> reseeds the noise table from \<open>params.seed\<close> and runs the stages in
  order. It returns the cloud together with the noise state it leaves behind.
\<close>

definition applyDeformers :: "noise_state \<Rightarrow> point3 list \<Rightarrow> params \<Rightarrow> point3 list \<times> noise_state" where
  "applyDeformers st0 points params =
     (let st = noiseSeed (seed params);
          pts = points;
          pts = smoothStage st params pts;
          pts = noiseStage st params pts;
          pts = twistStage params pts;
          pts = taperStage params pts;
          pts = bendStage params pts;
          pts = waveStage params pts
      in (pts, st))"

section \<open>The deformers, point by point\<close>

text \<open>
  Every deformer is a \<open>points.map\<close>. These are the bodies of the mapped functions: the
  new position of one point, given the bounds of the cloud the deformer runs on where the
  deformer reads them. \<open>bendPoint\<close> carries the guard of \<open>bend\<close>, which returns the points
  as they are. The \<open>StagePoint\<close> functions add the enable test of each stage of
  \<open>applyDeformers\<close>, and \<open>stackPoint\<close> sends a point of the input cloud through the six
  stages, each stage reading the bounds of the cloud the stage before it returned.
\<close>

definition displacePoint :: "noise_state \<Rightarrow> displace_opts \<Rightarrow> point3 \<Rightarrow> point3" where
  "displacePoint st opts p =
     (let nx = px p * frequency opts + offsetX opts;
          ny = py p * frequency opts + offsetY opts;
          nz = pz p * frequency opts + offsetZ opts;
          disp = fbm3vec st nx ny nz
                   \<lparr>octaves = octaves opts, persistence = persistence opts,
                    lacunarity = lacunarity opts, frequency = 1, amplitude = 1\<rparr>
      in \<lparr>px = px p + px disp * amplitude opts,
          py = py p + py disp * amplitude opts,
          pz = pz p + pz disp * amplitude opts\<rparr>)"

definition twistPoint :: "real \<times> real \<Rightarrow> real \<Rightarrow> string \<Rightarrow> point3 \<Rightarrow> point3" where
  "twistPoint bounds amount axis p =
     (let (bmin, bmax) = bounds;
          t = (getAxisVal axis p - bmin) / js_or (bmax - bmin) 1;
          ang = (t - 0.5) * amount * pi * 2
      in setFromRotation p ang axis)"

definition taperPoint :: "real \<times> real \<Rightarrow> real \<Rightarrow> real \<Rightarrow> string \<Rightarrow> point3 \<Rightarrow> point3" where
  "taperPoint bounds startScale endScale axis p =
     (let (bmin, bmax) = bounds;
          t = (getAxisVal axis p - bmin) / js_or (bmax - bmin) 1;
          s = startScale + (endScale - startScale) * t
      in scalePerp p s axis)"

definition bendPoint :: "real \<times> real \<Rightarrow> real \<Rightarrow> string \<Rightarrow> point3 \<Rightarrow> point3" where
  "bendPoint bounds ang axis p =
     (let (bmin, bmax) = bounds;
          len = js_or (bmax - bmin) 1
      in if \<bar>ang\<bar> < 0.001 then p
         else
           (let radius = len / ang;
                axisPos = getAxisVal axis p;
                t = (axisPos - bmin) / len;
                theta = (t - 0.5) * ang;
                (p1, p2) = getPerpComponents p axis
            in if axis = ''x'' then
                 \<lparr>px = (radius + p1) * sin theta + bmin + len * 0.5,
                  py = py p,
                  pz = (radius + p1) * cos theta - radius\<rparr>
               else if axis = ''y'' then
                 \<lparr>px = px p,
                  py = (radius + p1) * sin theta + bmin + len * 0.5,
                  pz = (radius + p1) * cos theta - radius\<rparr>
               else
                 \<lparr>px = px p,
                  py = (radius + p1) * sin theta,
                  pz = (radius + p1) * cos theta - radius + bmin + len * 0.5\<rparr>))"

definition wavePoint :: "real \<Rightarrow> real \<Rightarrow> string \<Rightarrow> real \<Rightarrow> point3 \<Rightarrow> point3" where
  "wavePoint freq amp axis phase p =
     (let axisVal = (if axis = ''x'' then px p else if axis = ''y'' then py p else pz p);
          displacement = amp * sin (axisVal * freq + phase)
      in if axis = ''x'' then \<lparr>px = px p, py = py p + displacement, pz = pz p\<rparr>
         else if axis = ''y'' then \<lparr>px = px p + displacement, py = py p, pz = pz p\<rparr>
         else \<lparr>px = px p, py = py p + displacement, pz = pz p\<rparr>)"

definition smoothStagePoint :: "noise_state \<Rightarrow> params \<Rightarrow> point3 \<Rightarrow> point3" where
  "smoothStagePoint st params p =
     (if smoothEnabled params \<and> smoothAmp params > 0 then
        displacePoint st
          \<lparr>octaves = 1, persistence = 0.5, lacunarity = 2,
           frequency = smoothFreq params, amplitude = smoothAmp params,
           offsetX = js_or (noiseOffsetX params) 0 + 200,
           offsetY = js_or (noiseOffsetY params) 0 + 200,
           offsetZ = js_or (noiseOffsetZ params) 0 + 200\<rparr> p
      else p)"

definition noiseStagePoint :: "noise_state \<Rightarrow> params \<Rightarrow> point3 \<Rightarrow> point3" where
  "noiseStagePoint st params p =
     (if noiseAmp params > 0 then
        displacePoint st
          \<lparr>octaves = noiseOctaves params, persistence = noisePersistence params,
           lacunarity = noiseLacunarity params,
           frequency = noiseFreq params, amplitude = noiseAmp params,
           offsetX = noiseOffsetX params,
           offsetY = noiseOffsetY params,
           offsetZ = noiseOffsetZ params\<rparr> p
      else p)"

definition twistStagePoint :: "params \<Rightarrow> point3 list \<Rightarrow> point3 \<Rightarrow> point3" where
  "twistStagePoint params cloud p =
     (if twistEnabled params
      then twistPoint (getBounds (twistAxis params) cloud) (twistAmount params) (twistAxis params) p
      else p)"

definition taperStagePoint :: "params \<Rightarrow> point3 list \<Rightarrow> point3 \<Rightarrow> point3" where
  "taperStagePoint params cloud p =
     (if taperEnabled params
      then taperPoint (getBounds (taperAxis params) cloud) (taperStart params) (taperEnd params)
             (taperAxis params) p
      else p)"

definition bendStagePoint :: "params \<Rightarrow> point3 list \<Rightarrow> point3 \<Rightarrow> point3" where
  "bendStagePoint params cloud p =
     (if bendEnabled params
      then bendPoint (getBounds (bendAxis params) cloud) (bendAngle params) (bendAxis params) p
      else p)"

definition waveStagePoint :: "params \<Rightarrow> point3 \<Rightarrow> point3" where
  "waveStagePoint params p =
     (if waveEnabled params
      then wavePoint (waveFreq params) (waveAmp params) (waveAxis params) (wavePhase params) p
      else p)"

definition stackPoint :: "params \<Rightarrow> point3 list \<Rightarrow> point3 \<Rightarrow> point3" where
  "stackPoint params pts p =
     (let st = noiseSeed (seed params);
          c1 = smoothStage st params pts;
          c2 = noiseStage st params c1;
          c3 = twistStage params c2;
          c4 = taperStage params c3
      in waveStagePoint params
           (bendStagePoint params c4
              (taperStagePoint params c3
                 (twistStagePoint params c2
                    (noiseStagePoint st params
                       (smoothStagePoint st params p))))))"

section \<open>Camera rotation (vec3.js)\<close>

definition rotateX :: "point3 \<Rightarrow> real \<Rightarrow> point3" where
  "rotateX v ang =
     (let c = cos ang; s = sin ang
      in \<lparr>px = px v, py = py v * c - pz v * s, pz = py v * s + pz v * c\<rparr>)"

definition rotateY :: "point3 \<Rightarrow> real \<Rightarrow> point3" where
  "rotateY v ang =
     (let c = cos ang; s = sin ang
      in \<lparr>px = px v * c + pz v * s, py = py v, pz = - px v * s + pz v * c\<rparr>)"

definition rotateZ :: "point3 \<Rightarrow> real \<Rightarrow> point3" where
  "rotateZ v ang =
     (let c = cos ang; s = sin ang
      in \<lparr>px = px v * c - py v * s, py = px v * s + py v * c, pz = pz v\<rparr>)"

definition camRotate :: "params \<Rightarrow> point3 \<Rightarrow> point3" where
  \<comment> \<open>the three statements \<open>v = rotateX(v, camRotX); v = rotateY(v, camRotY); v = rotateZ(v, camRotZ)\<close>\<close>
  "camRotate params v =
     rotateZ (rotateY (rotateX v (camRotX params)) (camRotY params)) (camRotZ params)"

section \<open>Projection engine (projection.js)\<close>

text \<open>
  A projected primitive. The source pushes the first six fields in the per-point loop
  and assigns \<open>scale\<close>, \<open>opacity\<close> and \<open>localDensity\<close> in the later passes; until then
  the model holds \<open>0\<close> in them.
\<close>

record bird =
  sx :: real
  sy :: real
  depth :: real
  angle :: real
  perspScale :: real
  poseIndex :: nat
  scale :: real
  opacity :: real
  localDensity :: real

definition seededRandom :: "real \<Rightarrow> real" where
  "seededRandom s0 =
     (let s = sin (s0 * 12.9898 + 78.233) * 43758.5453
      in s - real_of_int \<lfloor>s\<rfloor>)"

definition poseOf :: "noise_state \<Rightarrow> params \<Rightarrow> point3 \<Rightarrow> nat" where
  \<comment> \<open>the block \<open>let poseIndex = 0; if (params.poseVariation && params.poseNoiseFreq > 0) ...\<close>\<close>
  "poseOf st params p =
     (if poseVariation params \<and> poseNoiseFreq params > 0 then
        (let poseNoise = simplex3 st (px p * poseNoiseFreq params)
                           (py p * poseNoiseFreq params) (pz p * poseNoiseFreq params);
             poseVal = (poseNoise + 1) * 0.5
         in if poseVal < 0.35 then 0
            else if poseVal < 0.55 then 1
            else if poseVal < 0.75 then 2
            else 3)
      else 0)"

text \<open>
  The body of the per-point loop for the point \<open>p\<close> at index \<open>i\<close>: \<open>None\<close> is the
  \<open>continue\<close> of a point behind the perspective camera.
\<close>

definition projectPoint :: "noise_state \<Rightarrow> params \<Rightarrow> nat \<Rightarrow> point3 \<Rightarrow> bird option" where
  "projectPoint st params i p =
     (let cx = real (width params) / 2;
          cy = real (height params) / 2;
          camDist = 300;
          flowFreq = js_or (js_or (curlFlowFreq params) (noiseFreq params)) 0.015;
          curlVec =
            (if orientToFlow params \<and> flowFreq > 0 then
               Some (curl3 st (px p * flowFreq) (py p * flowFreq) (pz p * flowFreq)
                       (default_opts\<lparr>octaves :=
                            (if curlFlowOctaves params = 0 then 2 else curlFlowOctaves params),
                          frequency := 1\<rparr>))
             else None);
          v = camRotate params p;
          ang = (case curlVec of None \<Rightarrow> 0
                 | Some cv \<Rightarrow> (let cv = camRotate params cv in js_atan2 (py cv) (px cv)));
          ang = (if orientJitter params > 0
                 then ang + (seededRandom (real_of_int (seed params + int i * 7)) - 0.5)
                              * orientJitter params * pi * 2
                 else ang)
      in if projType params = ''perspective'' then
           (let d = pz v + camDist
            in if d \<le> 0.1 then None
               else
                 (let ps = camFOV params / d
                  in Some \<lparr>sx = px v * ps + cx, sy = py v * ps + cy, depth = pz v,
                           angle = ang, perspScale = ps, poseIndex = poseOf st params p,
                           scale = 0, opacity = 0, localDensity = 0\<rparr>))
         else
           Some \<lparr>sx = px v * camZoom params + cx, sy = py v * camZoom params + cy,
                 depth = pz v, angle = ang, perspScale = 1, poseIndex = poseOf st params p,
                 scale = 0, opacity = 0, localDensity = 0\<rparr>)"

text \<open>The loop \<open>for (let i = 0; i < points3d.length; i++)\<close>, started at index \<open>i\<close>.\<close>

fun gather :: "noise_state \<Rightarrow> params \<Rightarrow> nat \<Rightarrow> point3 list \<Rightarrow> bird list" where
  "gather st params i [] = []"
| "gather st params i (p # ps) =
     (case projectPoint st params i p of
        None \<Rightarrow> gather st params (Suc i) ps
      | Some b \<Rightarrow> b # gather st params (Suc i) ps)"

definition normDepthOf :: "real \<Rightarrow> real \<Rightarrow> bird \<Rightarrow> real" where
  "normDepthOf minZ zRange b = (depth b - minZ) / zRange"

definition shade :: "params \<Rightarrow> real \<Rightarrow> real \<Rightarrow> bird \<Rightarrow> bird" where
  \<comment> \<open>the body of the second loop: scale and opacity of one primitive\<close>
  "shade params minZ zRange b =
     (let normDepth = normDepthOf minZ zRange b;
          sc = (if projType params = ''perspective''
                then birdScale params * perspScale b * 0.5
                else (let dScale = 1 - depthScale params * (1 - normDepth)
                      in birdScale params * camZoom params * 0.5 * dScale));
          depthCurve = js_or (depthOpacityCurve params) 1;
          curvedDepth = js_pow normDepth depthCurve
      in b\<lparr>scale := sc,
           opacity := depthOpacity params + (1 - depthOpacity params) * curvedDepth\<rparr>)"

text \<open>
  The density grid is a \<open>Uint16Array\<close> of \<open>cols * rows\<close> cells; \<open>++\<close> on a cell wraps at
  \<open>65536\<close>. The viewport size is a \<^typ>\<open>nat\<close>, so \<open>cols\<close> and \<open>rows\<close> have the same sign and
  the array length is never negative.
\<close>

definition cellOf :: "real \<Rightarrow> bird \<Rightarrow> int \<times> int" where
  \<comment> \<open>\<open>(col, row)\<close>\<close>
  "cellOf gs b = (\<lfloor>sx b / gs\<rfloor>, \<lfloor>sy b / gs\<rfloor>)"

definition inGrid :: "int \<Rightarrow> int \<Rightarrow> int \<Rightarrow> int \<Rightarrow> bool" where
  "inGrid cols rows col row \<longleftrightarrow> col \<ge> 0 \<and> col < cols \<and> row \<ge> 0 \<and> row < rows"

fun fillGrid :: "real \<Rightarrow> int \<Rightarrow> int \<Rightarrow> bird list \<Rightarrow> nat list \<Rightarrow> nat list" where
  "fillGrid gs cols rows [] grid = grid"
| "fillGrid gs cols rows (b # bs) grid =
     (let (col, row) = cellOf gs b
      in fillGrid gs cols rows bs
           (if inGrid cols rows col row
            then grid[nat (row * cols + col) := (grid ! nat (row * cols + col) + 1) mod 65536]
            else grid))"

definition smoothDensity :: "nat list \<Rightarrow> int \<Rightarrow> int \<Rightarrow> int \<Rightarrow> int \<Rightarrow> real" where
  "smoothDensity grid cols rows col row =
     (let cells = filter (\<lambda>(r, c). inGrid cols rows c r)
                    (concat (map (\<lambda>dr. map (\<lambda>dc. (row + dr, col + dc)) [-1, 0, 1]) [-1, 0, 1]))
      in real (sum_list (map (\<lambda>(r, c). grid ! nat (r * cols + c)) cells))
           / real (length cells))"

definition maxSmoothed :: "nat list \<Rightarrow> int \<Rightarrow> int \<Rightarrow> real" where
  \<comment> \<open>the pre-scan, from \<open>maxDensity = 1\<close>\<close>
  "maxSmoothed grid cols rows =
     foldl (\<lambda>m d. if d > m then d else m) 1
       (concat (map (\<lambda>r. map (\<lambda>c. smoothDensity grid cols rows c r) [0 ..< nat cols])
                  [0 ..< nat rows]))"

definition darkBand :: "params \<Rightarrow> bird list \<Rightarrow> bird list" where
  "darkBand params birds =
     (if darkBandEnabled params then
        (let gs = js_or (darkBandGridSize params) 20;
             cols = \<lceil>real (width params) / gs\<rceil>;
             rows = \<lceil>real (height params) / gs\<rceil>;
             grid = fillGrid gs cols rows birds (replicate (nat (cols * rows)) 0);
             maxDensity = maxSmoothed grid cols rows
         in map (\<lambda>b.
              let (col, row) = cellOf gs b
              in if inGrid cols rows col row
                 then b\<lparr>localDensity := smoothDensity grid cols rows col row / maxDensity\<rparr>
                 else b\<lparr>localDensity := 0\<rparr>) birds)
      else map (\<lambda>b. b\<lparr>localDensity := 0\<rparr>) birds)"

text \<open>
  Everything \<open>projectScene\<close> does before its last statement: the per-point loop, the
  depth range, the scale and opacity pass and the density pass.
\<close>

definition beforeSort :: "noise_state \<Rightarrow> point3 list \<Rightarrow> params \<Rightarrow> bird list" where
  "beforeSort st points3d params =
     (let birds = gather st params 0 points3d
      in if length birds = 0 then []
         else
           (let (minZ, maxZ) = min_max (map depth birds);
                zRange = js_or (maxZ - minZ) 1;
                birds = map (shade params minZ zRange) birds
            in darkBand params birds))"

text \<open>
  \<open>birds.sort((a, b) => a.depth - b.depth)\<close>: the host sort is stable, and on reals the
  comparator is a total preorder by \<open>depth\<close>, so the result is the stable sort by that key.
\<close>

definition projectScene :: "noise_state \<Rightarrow> point3 list \<Rightarrow> params \<Rightarrow> bird list" where
  "projectScene st points3d params = sort_key depth (beforeSort st points3d params)"

section \<open>Shape sampler (generate.js)\<close>

definition normalizeVec :: "point3 \<Rightarrow> point3" where
  "normalizeVec v =
     (let len = sqrt (px v * px v + py v * py v + pz v * pz v)
      in if len = 0 then \<lparr>px = 0, py = 0, pz = 0\<rparr>
         else \<lparr>px = px v / len, py = py v / len, pz = pz v / len\<rparr>)"

definition crossVec :: "point3 \<Rightarrow> point3 \<Rightarrow> point3" where
  "crossVec a b =
     \<lparr>px = py a * pz b - pz a * py b,
      py = pz a * px b - px a * pz b,
      pz = px a * py b - py a * px b\<rparr>"

definition crInterp :: "real \<Rightarrow> real \<Rightarrow> real \<Rightarrow> real \<Rightarrow> real \<Rightarrow> real" where
  "crInterp p0 p1 p2 p3 t =
     (let t2 = t * t; t3 = t2 * t
      in 0.5 * ((2 * p1) + (- p0 + p2) * t
                + (2 * p0 - 5 * p1 + 4 * p2 - p3) * t2
                + (- p0 + 3 * p1 - 3 * p2 + p3) * t3))"

definition spine :: "point3 list" where
  "spine =
     [\<lparr>px = -60, py = 0, pz = -80\<rparr>,
      \<lparr>px = -30, py = 30, pz = -30\<rparr>,
      \<lparr>px = 0, py = -20, pz = 0\<rparr>,
      \<lparr>px = 30, py = 25, pz = 30\<rparr>,
      \<lparr>px = 60, py = -10, pz = 80\<rparr>]"

text \<open>
  \<open>catmullRomPoint\<close> is only called with \<open>0 \<le> t \<le> 1\<close>, where all four indices are
  inside the spine.
\<close>

definition catmullRomPoint :: "point3 list \<Rightarrow> real \<Rightarrow> point3" where
  "catmullRomPoint sp t =
     (let n = int (length sp) - 1;
          f = t * real_of_int n;
          i = min \<lfloor>f\<rfloor> (n - 1);
          local = f - real_of_int i;
          p0 = sp ! nat (max 0 (i - 1));
          p1 = sp ! nat i;
          p2 = sp ! nat (min n (i + 1));
          p3 = sp ! nat (min n (i + 2))
      in \<lparr>px = crInterp (px p0) (px p1) (px p2) (px p3) local,
          py = crInterp (py p0) (py p1) (py p2) (py p3) local,
          pz = crInterp (pz p0) (pz p1) (pz p2) (pz p3) local\<rparr>)"

definition catmullRomTangent :: "point3 list \<Rightarrow> real \<Rightarrow> point3" where
  "catmullRomTangent sp t =
     (let eps = 0.001;
          a = catmullRomPoint sp (max 0 (t - eps));
          b = catmullRomPoint sp (min 1 (t + eps))
      in \<lparr>px = px b - px a, py = py b - py a, pz = pz b - pz a\<rparr>)"

text \<open>
  \<open>densityAcceptance\<close> returns the decision and the state of the PRNG after it: the
  early return draws nothing.
\<close>

definition densityAcceptance ::
  "noise_state \<Rightarrow> point3 \<Rightarrow> real \<Rightarrow> string \<Rightarrow> params \<Rightarrow> u32 \<Rightarrow> bool \<times> u32"
where
  "densityAcceptance st p distFromCenter fm dp a =
     (let falloff = js_or (densityFalloff dp) 0;
          dnoise = js_or (densityNoise dp) 0;
          dfreq = js_or (densityNoiseFreq dp) 0
      in if falloff \<le> 0 \<and> dnoise \<le> 0 then (True, a)
         else
           (let prob = 1;
                prob = (if fm = ''volume'' \<and> falloff > 0 \<and> distFromCenter \<ge> 0
                        then prob * js_pow (max 0 (1 - distFromCenter)) falloff
                        else prob);
                prob = (if dnoise > 0 \<and> dfreq > 0
                        then (let nval = simplex3 st (px p * dfreq) (py p * dfreq) (pz p * dfreq);
                                  noiseP = 1 - dnoise + dnoise * (0.5 + 0.5 * nval)
                              in prob * noiseP)
                        else prob);
                (r, a') = mulberry32_next a
            in (r < prob, a')))"

text \<open>
  Marsaglia's \<open>do ... while (s >= 1 || s === 0)\<close> has no attempt cap of its own, so it is
  a partial function: \<open>None\<close> stands for a loop that never leaves. It returns
  \<open>(u, v, s)\<close> and the state of the PRNG.
\<close>

partial_function (option) marsaglia :: "u32 \<Rightarrow> (real \<times> real \<times> real \<times> u32) option" where
  "marsaglia a =
     (let d1 = mulberry32_next a;
          u = fst d1 * 2 - 1;
          d2 = mulberry32_next (snd d1);
          v = fst d2 * 2 - 1;
          s = u * u + v * v
      in if s \<ge> 1 \<or> s = 0 then marsaglia (snd d2) else Some (u, v, s, snd d2))"

text \<open>
  One pass through the body of the do-while from the PRNG state \<open>a\<close>, and its exit test.
\<close>

definition marsagliaDraw :: "u32 \<Rightarrow> real \<times> real \<times> real \<times> u32" where
  "marsagliaDraw a =
     (let d1 = mulberry32_next a;
          u = fst d1 * 2 - 1;
          d2 = mulberry32_next (snd d1);
          v = fst d2 * 2 - 1;
          s = u * u + v * v
      in (u, v, s, snd d2))"

definition marsagliaRejects :: "u32 \<Rightarrow> bool" where
  "marsagliaRejects a = (case marsagliaDraw a of (u, v, s, a') \<Rightarrow> s \<ge> 1 \<or> s = 0)"

definition ellipsoidCandidate ::
  "noise_state \<Rightarrow> real \<Rightarrow> real \<Rightarrow> real \<Rightarrow> string \<Rightarrow> params \<Rightarrow> real \<times> real \<times> real \<times> u32
     \<Rightarrow> point3 \<times> bool \<times> u32"
where
  \<comment> \<open>the rest of one loop iteration, after the do-while\<close>
  "ellipsoidCandidate st rx ry rz fm dp m =
     (case m of (u, v, s, a) \<Rightarrow>
        let factor = 2 * sqrt (1 - s);
            nx = u * factor;
            ny = v * factor;
            nz = 1 - 2 * s;
            (r, a) = (if fm = ''volume''
                      then (let (d, a') = mulberry32_next a in (root 3 d, a'))
                      else (1, a));
            p = \<lparr>px = nx * rx * r, py = ny * ry * r, pz = nz * rz * r\<rparr>;
            distFromCenter = (if fm = ''volume'' then r else 0);
            (ok, a) = densityAcceptance st p distFromCenter fm dp a
        in (p, ok, a))"

text \<open>
  The \<open>while (points.length < count && attempts < maxAttempts)\<close> loops return the points
  together with the final value of \<open>attempts\<close>, the number of acceptance trials made.
\<close>

function ellipsoidLoop ::
  "noise_state \<Rightarrow> nat \<Rightarrow> real \<Rightarrow> real \<Rightarrow> real \<Rightarrow> string \<Rightarrow> params
     \<Rightarrow> point3 list \<Rightarrow> nat \<Rightarrow> u32 \<Rightarrow> (point3 list \<times> nat) option"
where
  "ellipsoidLoop st cnt rx ry rz fm dp points attempts a =
     (if length points < cnt \<and> attempts < cnt * 20 then
        (case marsaglia a of
           None \<Rightarrow> None
         | Some m \<Rightarrow>
             ellipsoidLoop st cnt rx ry rz fm dp
               (if fst (snd (ellipsoidCandidate st rx ry rz fm dp m))
                then points @ [fst (ellipsoidCandidate st rx ry rz fm dp m)] else points)
               (attempts + 1)
               (snd (snd (ellipsoidCandidate st rx ry rz fm dp m))))
      else Some (points, attempts))"
  by pat_completeness auto
termination
  by (relation "measure (\<lambda>(st, cnt, rx, ry, rz, fm, dp, points, attempts, a). cnt * 20 - attempts)")
     auto

declare ellipsoidLoop.simps [simp del]

definition generateEllipsoidRun ::
  "noise_state \<Rightarrow> nat \<Rightarrow> real \<Rightarrow> real \<Rightarrow> real \<Rightarrow> string \<Rightarrow> int \<Rightarrow> params
     \<Rightarrow> (point3 list \<times> nat) option"
where
  "generateEllipsoidRun st cnt rx ry rz fm sd dp =
     ellipsoidLoop st cnt rx ry rz fm dp [] 0 (mulberry32 sd)"

definition generateEllipsoid ::
  "noise_state \<Rightarrow> nat \<Rightarrow> real \<Rightarrow> real \<Rightarrow> real \<Rightarrow> string \<Rightarrow> int \<Rightarrow> params \<Rightarrow> point3 list option"
where
  "generateEllipsoid st cnt rx ry rz fm sd dp =
     map_option fst (generateEllipsoidRun st cnt rx ry rz fm sd dp)"

definition generateSphere ::
  "noise_state \<Rightarrow> nat \<Rightarrow> real \<Rightarrow> string \<Rightarrow> int \<Rightarrow> params \<Rightarrow> point3 list option"
where
  "generateSphere st cnt radius fm sd dp = generateEllipsoid st cnt radius radius radius fm sd dp"

definition torusCandidate ::
  "noise_state \<Rightarrow> real \<Rightarrow> real \<Rightarrow> string \<Rightarrow> params \<Rightarrow> u32 \<Rightarrow> point3 \<times> bool \<times> u32"
where
  "torusCandidate st majorR minorR fm dp a =
     (let (d1, a) = mulberry32_next a;
          u = d1 * pi * 2;
          (d2, a) = mulberry32_next a;
          v = d2 * pi * 2;
          (r, distFromCenter, a) =
            (if fm = ''volume''
             then (let (d3, a') = mulberry32_next a; rNorm = sqrt d3
                   in (minorR * rNorm, rNorm, a'))
             else (minorR, 0, a));
          p = \<lparr>px = (majorR + r * cos v) * cos u,
               py = (majorR + r * cos v) * sin u,
               pz = r * sin v\<rparr>;
          (ok, a) = densityAcceptance st p distFromCenter fm dp a
      in (p, ok, a))"

function torusLoop ::
  "noise_state \<Rightarrow> nat \<Rightarrow> real \<Rightarrow> real \<Rightarrow> string \<Rightarrow> params
     \<Rightarrow> point3 list \<Rightarrow> nat \<Rightarrow> u32 \<Rightarrow> point3 list \<times> nat"
where
  "torusLoop st cnt majorR minorR fm dp points attempts a =
     (if length points < cnt \<and> attempts < cnt * 20 then
        torusLoop st cnt majorR minorR fm dp
          (if fst (snd (torusCandidate st majorR minorR fm dp a))
           then points @ [fst (torusCandidate st majorR minorR fm dp a)] else points)
          (attempts + 1)
          (snd (snd (torusCandidate st majorR minorR fm dp a)))
      else (points, attempts))"
  by pat_completeness auto
termination
  by (relation "measure (\<lambda>(st, cnt, majorR, minorR, fm, dp, points, attempts, a). cnt * 20 - attempts)")
     auto

declare torusLoop.simps [simp del]

definition generateTorusRun ::
  "noise_state \<Rightarrow> nat \<Rightarrow> real \<Rightarrow> real \<Rightarrow> string \<Rightarrow> int \<Rightarrow> params \<Rightarrow> point3 list \<times> nat"
where
  "generateTorusRun st cnt majorR minorR fm sd dp =
     torusLoop st cnt majorR minorR fm dp [] 0 (mulberry32 sd)"

definition generateTorus ::
  "noise_state \<Rightarrow> nat \<Rightarrow> real \<Rightarrow> real \<Rightarrow> string \<Rightarrow> int \<Rightarrow> params \<Rightarrow> point3 list"
where
  "generateTorus st cnt majorR minorR fm sd dp =
     fst (generateTorusRun st cnt majorR minorR fm sd dp)"

definition sweptCandidate :: "noise_state \<Rightarrow> real \<Rightarrow> params \<Rightarrow> u32 \<Rightarrow> point3 \<times> bool \<times> u32" where
  "sweptCandidate st crossSectionR dp a =
     (let (t, a) = mulberry32_next a;
          pos = catmullRomPoint spine t;
          tangent = catmullRomTangent spine t;
          forward = normalizeVec tangent;
          up = (if \<bar>py forward\<bar> > 0.95 then \<lparr>px = 1, py = 0, pz = 0\<rparr>
                else \<lparr>px = 0, py = 1, pz = 0\<rparr>);
          right = normalizeVec (crossVec forward up);
          realUp = crossVec right forward;
          (d2, a) = mulberry32_next a;
          ang = d2 * pi * 2;
          (d3, a) = mulberry32_next a;
          rNorm = sqrt d3;
          r = crossSectionR * rNorm;
          p = \<lparr>px = px pos + r * (cos ang * px right + sin ang * px realUp),
               py = py pos + r * (cos ang * py right + sin ang * py realUp),
               pz = pz pos + r * (cos ang * pz right + sin ang * pz realUp)\<rparr>;
          (ok, a) = densityAcceptance st p rNorm ''volume'' dp a
      in (p, ok, a))"

function sweptLoop ::
  "noise_state \<Rightarrow> nat \<Rightarrow> real \<Rightarrow> params \<Rightarrow> point3 list \<Rightarrow> nat \<Rightarrow> u32 \<Rightarrow> point3 list \<times> nat"
where
  "sweptLoop st cnt crossSectionR dp points attempts a =
     (if length points < cnt \<and> attempts < cnt * 20 then
        sweptLoop st cnt crossSectionR dp
          (if fst (snd (sweptCandidate st crossSectionR dp a))
           then points @ [fst (sweptCandidate st crossSectionR dp a)] else points)
          (attempts + 1)
          (snd (snd (sweptCandidate st crossSectionR dp a)))
      else (points, attempts))"
  by pat_completeness auto
termination
  by (relation "measure (\<lambda>(st, cnt, crossSectionR, dp, points, attempts, a). cnt * 20 - attempts)")
     auto

declare sweptLoop.simps [simp del]

definition generateSweptCurveRun ::
  "noise_state \<Rightarrow> nat \<Rightarrow> real \<Rightarrow> int \<Rightarrow> params \<Rightarrow> point3 list \<times> nat"
where
  "generateSweptCurveRun st cnt crossSectionR sd dp =
     sweptLoop st cnt crossSectionR dp [] 0 (mulberry32 sd)"

definition generateSweptCurve ::
  "noise_state \<Rightarrow> nat \<Rightarrow> real \<Rightarrow> int \<Rightarrow> params \<Rightarrow> point3 list"
where
  "generateSweptCurve st cnt crossSectionR sd dp =
     fst (generateSweptCurveRun st cnt crossSectionR sd dp)"

definition generateSingleCloud :: "noise_state \<Rightarrow> params \<Rightarrow> point3 list option" where
  "generateSingleCloud st params =
     (if shapeType params = ''ellipsoid'' then
        generateEllipsoid st (count params) (radiusX params) (radiusY params) (radiusZ params)
          (fillMode params) (seed params) params
      else if shapeType params = ''sphere'' then
        generateSphere st (count params)
          (max (max (radiusX params) (radiusY params)) (radiusZ params))
          (fillMode params) (seed params) params
      else if shapeType params = ''torus'' then
        Some (generateTorus st (count params) (torusMajor params) (torusMinor params)
                (fillMode params) (seed params) params)
      else if shapeType params = ''swept'' then
        Some (generateSweptCurve st (count params) (js_or (sweptRadius params) 15)
                (seed params) params)
      else
        generateEllipsoid st (count params) (radiusX params) (radiusY params) (radiusZ params)
          (fillMode params) (seed params) params)"

section \<open>Flock composer (generate.js)\<close>

text \<open>The loop that pushes \<open>n\<close> cluster centres, three draws each.\<close>

fun genCenters :: "nat \<Rightarrow> real \<Rightarrow> real \<Rightarrow> u32 \<Rightarrow> point3 list \<times> u32" where
  "genCenters 0 maxR spread a = ([], a)"
| "genCenters (Suc n) maxR spread a =
     (let (d1, a) = mulberry32_next a;
          (d2, a) = mulberry32_next a;
          (d3, a) = mulberry32_next a;
          c = \<lparr>px = (d1 - 0.5) * 2 * maxR * spread,
               py = (d2 - 0.5) * 2 * maxR * spread,
               pz = (d3 - 0.5) * 2 * maxR * spread\<rparr>;
          (cs, a) = genCenters n maxR spread a
      in (c # cs, a))"

text \<open>The weights \<open>weights[1 .. n-1]\<close> of \<open>distributeCount\<close>, one draw each.\<close>

fun drawWeights :: "nat \<Rightarrow> real \<Rightarrow> u32 \<Rightarrow> real list \<times> u32" where
  "drawWeights 0 sizeVar a = ([], a)"
| "drawWeights (Suc n) sizeVar a =
     (let (d, a) = mulberry32_next a;
          w = 0.3 + (1 - sizeVar) * 0.4 + d * sizeVar * 0.3;
          (ws, a) = drawWeights n sizeVar a
      in (w # ws, a))"

definition distributeCount :: "int \<Rightarrow> nat \<Rightarrow> real \<Rightarrow> u32 \<Rightarrow> int list \<times> u32" where
  "distributeCount tot n sizeVar a =
     (let (ws, a) = drawWeights (n - 1) sizeVar a;
          weights = 1 # ws;
          sum = foldl (+) 0 weights
      in (map (\<lambda>w. js_round (real_of_int tot * w / sum)) weights, a))"

definition bridgePoint :: "point3 \<Rightarrow> point3 \<Rightarrow> real \<Rightarrow> u32 \<Rightarrow> point3 \<times> u32" where
  "bridgePoint ca cb tubeR a =
     (let (t, a) = mulberry32_next a;
          bx = px ca + (px cb - px ca) * t;
          by = py ca + (py cb - py ca) * t;
          bz = pz ca + (pz cb - pz ca) * t;
          (d2, a) = mulberry32_next a;
          ang = d2 * pi * 2;
          (d3, a) = mulberry32_next a;
          r = tubeR * sqrt d3;
          dx = px cb - px ca; dy = py cb - py ca; dz = pz cb - pz ca;
          len = js_or (sqrt (dx * dx + dy * dy + dz * dz)) 1;
          fwd = \<lparr>px = dx / len, py = dy / len, pz = dz / len\<rparr>;
          up = (if \<bar>py fwd\<bar> > 0.95 then \<lparr>px = 1, py = 0, pz = 0\<rparr>
                else \<lparr>px = 0, py = 1, pz = 0\<rparr>);
          right = normalizeVec (crossVec fwd up);
          realUp = crossVec right fwd
      in (\<lparr>px = bx + r * (cos ang * px right + sin ang * px realUp),
           py = by + r * (cos ang * py right + sin ang * py realUp),
           pz = bz + r * (cos ang * pz right + sin ang * pz realUp)\<rparr>, a))"

fun bridgePath :: "nat \<Rightarrow> point3 \<Rightarrow> point3 \<Rightarrow> real \<Rightarrow> u32 \<Rightarrow> point3 list \<times> u32" where
  "bridgePath 0 ca cb tubeR a = ([], a)"
| "bridgePath (Suc n) ca cb tubeR a =
     (let (p, a) = bridgePoint ca cb tubeR a;
          (ps, a) = bridgePath n ca cb tubeR a
      in (p # ps, a))"

fun bridgePaths :: "(point3 \<times> point3) list \<Rightarrow> nat \<Rightarrow> real \<Rightarrow> u32 \<Rightarrow> point3 list" where
  "bridgePaths [] perPath tubeR a = []"
| "bridgePaths ((ca, cb) # paths) perPath tubeR a =
     (let (ps, a) = bridgePath perPath ca cb tubeR a
      in ps @ bridgePaths paths perPath tubeR a)"

text \<open>
  \<open>generateBridgePoints\<close> is called with at least two centres and a positive count, so
  there is at least one path and \<open>Math.floor(count / paths.length)\<close> is the integer
  quotient.
\<close>

definition generateBridgePoints :: "point3 list \<Rightarrow> int \<Rightarrow> real \<Rightarrow> int \<Rightarrow> point3 list" where
  "generateBridgePoints centers cnt tubeR sd =
     (let a = mulberry32 sd;
          paths = map (\<lambda>i. (centers ! i, centers ! (i + 1))) [0 ..< length centers - 1];
          paths = (if length centers \<ge> 3
                   then paths @ [(centers ! (length centers - 1), centers ! 0)] else paths);
          perPath = nat (cnt div int (length paths))
      in bridgePaths paths perPath tubeR a)"

text \<open>
  The loop over the clusters \<open>f, f+1, ...\<close> of \<open>generateCloud\<close>; the first argument counts
  the clusters still to come. \<open>counts[f]\<close> is an integer; a negative one runs no
  iteration of the sampler, as \<open>0\<close> does.
\<close>

fun clusters ::
  "nat \<Rightarrow> nat \<Rightarrow> noise_state \<Rightarrow> params \<Rightarrow> point3 list \<Rightarrow> int list \<Rightarrow> u32 \<Rightarrow> point3 list option"
where
  "clusters 0 f st params centers counts a = Some []"
| "clusters (Suc n) f st params centers counts a =
     (let (d, a) = mulberry32_next a;
          sc = 1 - subFlockSizeVar params * d * 0.5;
          subParams = params
            \<lparr>count := nat (counts ! f),
             radiusX := radiusX params * sc,
             radiusY := radiusY params * sc,
             radiusZ := radiusZ params * sc,
             torusMajor := torusMajor params * sc,
             torusMinor := torusMinor params * sc,
             sweptRadius := js_or (sweptRadius params) 15 * sc,
             seed := seed params + int f * 1000\<rparr>
      in case generateSingleCloud st subParams of
           None \<Rightarrow> None
         | Some pts \<Rightarrow>
             (let pts = map (\<lambda>p. \<lparr>px = px p + px (centers ! f),
                                   py = py p + py (centers ! f),
                                   pz = pz p + pz (centers ! f)\<rparr>) pts
              in case clusters n (Suc f) st params centers counts a of
                   None \<Rightarrow> None
                 | Some rest \<Rightarrow> Some (pts @ rest)))"

text \<open>
  \<open>generateCloud\<close> reseeds the noise table first, whatever state it finds. The result is
  the cloud and the noise state left behind, or \<open>None\<close> when a sampler does not return.
\<close>

definition generateCloud :: "noise_state \<Rightarrow> params \<Rightarrow> (point3 list \<times> noise_state) option" where
  "generateCloud st0 params =
     (let st = noiseSeed (seed params)
      in if subFlocks params = 0 \<or> subFlocks params \<le> 1 then
           map_option (\<lambda>pts. (pts, st)) (generateSingleCloud st params)
         else
           (let a = mulberry32 (seed params + 999);
                maxR = max (max (radiusX params) (radiusY params)) (radiusZ params);
                (centers, a) = genCenters (nat (subFlocks params)) maxR (subFlockSpread params) a;
                bridgeCount = \<lfloor>real (count params) * subFlockBridge params\<rfloor>;
                flockCount = int (count params) - bridgeCount;
                (counts, a) = distributeCount flockCount (nat (subFlocks params))
                                (subFlockSizeVar params) a
            in case clusters (nat (subFlocks params)) 0 st params centers counts a of
                 None \<Rightarrow> None
               | Some allPoints \<Rightarrow>
                   Some (if bridgeCount > 0 \<and> subFlocks params > 1
                         then allPoints @ generateBridgePoints centers bridgeCount (maxR * 0.1)
                                            (seed params + 7777)
                         else allPoints, st)))"

section \<open>The pipeline (main.js)\<close>

text \<open>
  \<open>regenerate()\<close> with all three stages dirty: generate, deform, project, run on the
  noise state \<open>st0\<close> that the process is in when the run starts.
\<close>

definition pipeline :: "noise_state \<Rightarrow> params \<Rightarrow> bird list option" where
  "pipeline st0 params =
     (case generateCloud st0 params of
        None \<Rightarrow> None
      | Some (baseCloud, st1) \<Rightarrow>
          (let (deformedCloud, st2) = applyDeformers st1 baseCloud params
           in Some (projectScene st2 deformedCloud params)))"

section \<open>The specification's discrete curl\<close>

text \<open>
  The curl as the specification words it: central finite differences, with step
  \<open>eps\<close>, of the three channels of the potential \<open>fbm3vec\<close>.
\<close>

definition centralDiff :: "(real \<Rightarrow> real) \<Rightarrow> real \<Rightarrow> real \<Rightarrow> real" where
  "centralDiff f t eps = (f (t + eps) - f (t - eps)) / (2 * eps)"

definition discreteCurl :: "noise_state \<Rightarrow> real \<Rightarrow> real \<Rightarrow> real \<Rightarrow> fbm_opts \<Rightarrow> point3" where
  "discreteCurl st a b c opts =
     (let eps = 0.001;
          N = (\<lambda>x y z. fbm3vec st x y z opts)
      in \<lparr>px = centralDiff (\<lambda>y. pz (N a y c)) b eps - centralDiff (\<lambda>z. py (N a b z)) c eps,
          py = centralDiff (\<lambda>z. px (N a b z)) c eps - centralDiff (\<lambda>x. pz (N x b c)) a eps,
          pz = centralDiff (\<lambda>x. py (N x b c)) a eps - centralDiff (\<lambda>y. px (N a y c)) b eps\<rparr>)"

section \<open>The specification's opacity and density rules\<close>

text \<open>
  The depth of a primitive normalised across a batch: \<open>(depth - min) / (max - min)\<close>, the
  range replaced by \<open>1\<close> when it is \<open>0\<close>.
\<close>

definition batchNormDepth :: "bird list \<Rightarrow> bird \<Rightarrow> real" where
  "batchNormDepth out b =
     (let minZ = Min (set (map depth out));
          maxZ = Max (set (map depth out));
          zRange = (if maxZ - minZ = 0 then 1 else maxZ - minZ)
      in (depth b - minZ) / zRange)"

text \<open>
  The opacity as the specification states it, with the exponent \<open>depthOpacityCurve\<close>
  itself, and as the source computes it, where an exponent of \<open>0\<close> is replaced by \<open>1\<close>.
\<close>

definition claimedOpacity :: "params \<Rightarrow> bird list \<Rightarrow> bird \<Rightarrow> real" where
  "claimedOpacity params out b =
     depthOpacity params
       + (1 - depthOpacity params) * js_pow (batchNormDepth out b) (depthOpacityCurve params)"

definition amendedOpacity :: "params \<Rightarrow> bird list \<Rightarrow> bird \<Rightarrow> real" where
  "amendedOpacity params out b =
     depthOpacity params
       + (1 - depthOpacity params)
         * js_pow (batchNormDepth out b)
             (if depthOpacityCurve params = 0 then 1 else depthOpacityCurve params)"








section \<open>Concrete scenes\<close>

text \<open>
  The initial parameters with the camera looking down the z axis and flow orientation,
  jitter, pose variation and the density band switched off; two small clouds.
\<close>

definition frontView :: params where
  "frontView = main_params\<lparr>camRotX := 0, camRotY := 0, camRotZ := 0, orientToFlow := False,
     orientJitter := 0, poseVariation := False, darkBandEnabled := False\<rparr>"

definition threeDeep :: "point3 list" where
  "threeDeep =
     [\<lparr>px = 0, py = 0, pz = 2\<rparr>, \<lparr>px = 0, py = 0, pz = 0\<rparr>, \<lparr>px = 0, py = 0, pz = 1\<rparr>]"

definition behindCamera :: "point3 list" where
  "behindCamera = [\<lparr>px = 0, py = 0, pz = 0\<rparr>, \<lparr>px = 0, py = 0, pz = -1000\<rparr>]"

section \<open>Deformer stack: lengths and the bend guard\<close>

lemma length_noiseDisplace: "length (noiseDisplace st pts opts) = length pts"
  by (simp add: noiseDisplace_def)

lemma length_twist: "length (twist pts amount axis) = length pts"
  by (simp add: twist_def split: prod.splits)

lemma length_taper: "length (taper pts s e axis) = length pts"
  by (simp add: taper_def split: prod.splits)

lemma length_bend: "length (bend pts ang axis) = length pts"
  by (simp add: bend_def Let_def split: prod.splits)

lemma length_wave: "length (wave pts f am axis ph) = length pts"
  by (simp add: wave_def)

lemma noiseDisplace_map: "noiseDisplace st pts opts = map (displacePoint st opts) pts"
  by (simp add: noiseDisplace_def displacePoint_def)

lemma twist_map: "twist pts amount axis = map (twistPoint (getBounds axis pts) amount axis) pts"
  by (simp add: twist_def twistPoint_def split: prod.splits)

lemma taper_map:
  "taper pts s e axis = map (taperPoint (getBounds axis pts) s e axis) pts"
  by (simp add: taper_def taperPoint_def split: prod.splits)

lemma bend_map: "bend pts ang axis = map (bendPoint (getBounds axis pts) ang axis) pts"
  by (cases "\<bar>ang\<bar> < 0.001")
     (simp_all add: bend_def bendPoint_def[abs_def] Let_def split: prod.splits)

lemma wave_map: "wave pts f am axis ph = map (wavePoint f am axis ph) pts"
  by (simp add: wave_def wavePoint_def)

lemma smoothStage_map: "smoothStage st params pts = map (smoothStagePoint st params) pts"
  by (cases "smoothEnabled params"; cases "smoothAmp params > 0")
     (simp_all add: smoothStage_def smoothStagePoint_def[abs_def] noiseDisplace_map)

lemma noiseStage_map: "noiseStage st params pts = map (noiseStagePoint st params) pts"
  by (cases "noiseAmp params > 0")
     (simp_all add: noiseStage_def noiseStagePoint_def[abs_def] noiseDisplace_map)

lemma twistStage_map: "twistStage params pts = map (twistStagePoint params pts) pts"
  by (cases "twistEnabled params")
     (simp_all add: twistStage_def twistStagePoint_def[abs_def] twist_map)

lemma taperStage_map: "taperStage params pts = map (taperStagePoint params pts) pts"
  by (cases "taperEnabled params")
     (simp_all add: taperStage_def taperStagePoint_def[abs_def] taper_map)

lemma bendStage_map: "bendStage params pts = map (bendStagePoint params pts) pts"
  by (cases "bendEnabled params")
     (simp_all add: bendStage_def bendStagePoint_def[abs_def] bend_map)

lemma waveStage_map: "waveStage params pts = map (waveStagePoint params) pts"
  by (cases "waveEnabled params")
     (simp_all add: waveStage_def waveStagePoint_def[abs_def] wave_map)

lemma applyDeformers_map:
  "fst (applyDeformers st0 pts params) = map (stackPoint params pts) pts"
proof -
  define st where "st = noiseSeed (seed params)"
  define c1 where "c1 = smoothStage st params pts"
  define c2 where "c2 = noiseStage st params c1"
  define c3 where "c3 = twistStage params c2"
  define c4 where "c4 = taperStage params c3"
  define c5 where "c5 = bendStage params c4"
  have e1: "c1 = map (smoothStagePoint st params) pts"
    unfolding c1_def by (rule smoothStage_map)
  have e2: "c2 = map (noiseStagePoint st params) c1"
    unfolding c2_def by (rule noiseStage_map)
  have e3: "c3 = map (twistStagePoint params c2) c2"
    unfolding c3_def by (rule twistStage_map)
  have e4: "c4 = map (taperStagePoint params c3) c3"
    unfolding c4_def by (rule taperStage_map)
  have e5: "c5 = map (bendStagePoint params c4) c4"
    unfolding c5_def by (rule bendStage_map)
  have "fst (applyDeformers st0 pts params) = waveStage params c5"
    by (simp add: applyDeformers_def Let_def st_def c1_def c2_def c3_def c4_def c5_def)
  also have "\<dots> = map (waveStagePoint params) c5" by (rule waveStage_map)
  also have "\<dots> = map (waveStagePoint params) (map (bendStagePoint params c4) c4)"
    by (rule arg_cong[OF e5])
  also have "\<dots> = map (\<lambda>p. waveStagePoint params (bendStagePoint params c4 p)) c4"
    by (simp add: comp_def)
  also have "\<dots> = map (\<lambda>p. waveStagePoint params (bendStagePoint params c4 p))
                      (map (taperStagePoint params c3) c3)"
    by (rule arg_cong[OF e4])
  also have "\<dots> = map (\<lambda>p. waveStagePoint params (bendStagePoint params c4
                        (taperStagePoint params c3 p))) c3"
    by (simp add: comp_def)
  also have "\<dots> = map (\<lambda>p. waveStagePoint params (bendStagePoint params c4
                        (taperStagePoint params c3 p))) (map (twistStagePoint params c2) c2)"
    by (rule arg_cong[OF e3])
  also have "\<dots> = map (\<lambda>p. waveStagePoint params (bendStagePoint params c4
                        (taperStagePoint params c3 (twistStagePoint params c2 p)))) c2"
    by (simp add: comp_def)
  also have "\<dots> = map (\<lambda>p. waveStagePoint params (bendStagePoint params c4
                        (taperStagePoint params c3 (twistStagePoint params c2 p))))
                      (map (noiseStagePoint st params) c1)"
    by (rule arg_cong[OF e2])
  also have "\<dots> = map (\<lambda>p. waveStagePoint params (bendStagePoint params c4
                        (taperStagePoint params c3 (twistStagePoint params c2
                          (noiseStagePoint st params p))))) c1"
    by (simp add: comp_def)
  also have "\<dots> = map (\<lambda>p. waveStagePoint params (bendStagePoint params c4
                        (taperStagePoint params c3 (twistStagePoint params c2
                          (noiseStagePoint st params p)))))
                      (map (smoothStagePoint st params) pts)"
    by (rule arg_cong[OF e1])
  also have "\<dots> = map (stackPoint params pts) pts"
    by (simp add: comp_def stackPoint_def Let_def st_def c1_def c2_def c3_def c4_def)
  finally show ?thesis .
qed

text \<open>
  C10. Each deformer (noise displacement, twist, taper, bend, wave), each guarded stage
  of the stack (pre-smoothing, primary noise, twist, taper, bend, wave) and the whole
  stack \<open>applyDeformers\<close> return a cloud with exactly as many points as the input cloud,
  for every cloud and every configuration, and return it in the order of the input: the
  result is the input cloud mapped, point by point, by the deformer's function of one
  point, so the point at index \<open>i\<close> of the result is the image of the point at index \<open>i\<close>
  of the input. No point is dropped, added or moved to another index.
\<close>

theorem deformers_preserve_length:
  "length (smoothStage st params pts) = length pts
   \<and> length (noiseStage st params pts) = length pts
   \<and> length (twistStage params pts) = length pts
   \<and> length (taperStage params pts) = length pts
   \<and> length (bendStage params pts) = length pts
   \<and> length (waveStage params pts) = length pts
   \<and> length (noiseDisplace st pts opts) = length pts
   \<and> length (twist pts amount axis) = length pts
   \<and> length (taper pts s e axis) = length pts
   \<and> length (bend pts ang axis) = length pts
   \<and> length (wave pts f am axis ph) = length pts
   \<and> length (fst (applyDeformers st0 pts params)) = length pts
   \<and> noiseDisplace st pts opts = map (displacePoint st opts) pts
   \<and> twist pts amount axis = map (twistPoint (getBounds axis pts) amount axis) pts
   \<and> taper pts s e axis = map (taperPoint (getBounds axis pts) s e axis) pts
   \<and> bend pts ang axis = map (bendPoint (getBounds axis pts) ang axis) pts
   \<and> wave pts f am axis ph = map (wavePoint f am axis ph) pts
   \<and> smoothStage st params pts = map (smoothStagePoint st params) pts
   \<and> noiseStage st params pts = map (noiseStagePoint st params) pts
   \<and> twistStage params pts = map (twistStagePoint params pts) pts
   \<and> taperStage params pts = map (taperStagePoint params pts) pts
   \<and> bendStage params pts = map (bendStagePoint params pts) pts
   \<and> waveStage params pts = map (waveStagePoint params) pts
   \<and> fst (applyDeformers st0 pts params) = map (stackPoint params pts) pts"
proof -
  have lens:
    "length (smoothStage st params pts) = length pts
     \<and> length (noiseStage st params pts) = length pts
     \<and> length (twistStage params pts) = length pts
     \<and> length (taperStage params pts) = length pts
     \<and> length (bendStage params pts) = length pts
     \<and> length (waveStage params pts) = length pts
     \<and> length (noiseDisplace st pts opts) = length pts
     \<and> length (twist pts amount axis) = length pts
     \<and> length (taper pts s e axis) = length pts
     \<and> length (bend pts ang axis) = length pts
     \<and> length (wave pts f am axis ph) = length pts
     \<and> length (fst (applyDeformers st0 pts params)) = length pts"
    by (simp add: smoothStage_def noiseStage_def twistStage_def taperStage_def bendStage_def
        waveStage_def applyDeformers_def Let_def length_noiseDisplace length_twist length_taper
        length_bend length_wave)
  show ?thesis
    using lens noiseDisplace_map[of st pts opts] twist_map[of pts amount axis]
      taper_map[of pts s e axis] bend_map[of pts ang axis] wave_map[of pts f am axis ph]
      smoothStage_map[of st params pts] noiseStage_map[of st params pts]
      twistStage_map[of params pts] taperStage_map[of params pts] bendStage_map[of params pts]
      waveStage_map[of params pts] applyDeformers_map[of st0 pts params]
    by blast
qed

text \<open>
  C6. For every cloud, every axis and every bend angle of absolute value below \<open>0.001\<close>,
  \<open>bend\<close> returns the input points unchanged: the guard returns before the radius
  \<open>len / angle\<close> is computed.
\<close>

theorem bend_identity: "\<bar>ang\<bar> < 0.001 \<Longrightarrow> bend points ang axis = points"
  by (simp add: bend_def split: prod.splits)

theorem bend_identity_witness:
  "\<bar>0::real\<bar> < 0.001
   \<and> bend [\<lparr>px = 1, py = 2, pz = 3\<rparr>, \<lparr>px = 4, py = 5, pz = 6\<rparr>] 0 ''x''
       = [\<lparr>px = 1, py = 2, pz = 3\<rparr>, \<lparr>px = 4, py = 5, pz = 6\<rparr>]"
  using bend_identity [of 0 "[\<lparr>px = 1, py = 2, pz = 3\<rparr>, \<lparr>px = 4, py = 5, pz = 6\<rparr>]" "''x''"]
  by simp

section \<open>Noise field: the curl\<close>

text \<open>
  C7. For every coordinate and every option bundle, \<open>curl3\<close> is the discrete curl of the
  \<open>fbm3vec\<close> potential with step \<open>0.001\<close>: each partial derivative is the central
  difference of the matching \<open>fbm3vec\<close> channel, with that channel's coordinate offsets,
  and the components are
  \<open>(dNz/dy - dNy/dz, dNx/dz - dNz/dx, dNy/dx - dNx/dy)\<close>.
\<close>

theorem curl3_is_discrete_curl: "curl3 st a b c opts = discreteCurl st a b c opts"
  by (simp add: curl3_def discreteCurl_def centralDiff_def fbm3vec_def Let_def)

section \<open>Projection engine\<close>

text \<open>
  C3. For every cloud and every configuration the sequence returned by \<open>projectScene\<close>
  is non-decreasing in \<open>depth\<close>. The sort is the last step: the result holds exactly the
  primitives that all earlier passes produced, those of equal depth in their earlier
  order.
\<close>

theorem depth_sorted:
  "sorted (map depth (projectScene st pts params))
   \<and> (\<forall>k. filter (\<lambda>b. depth b = k) (projectScene st pts params)
          = filter (\<lambda>b. depth b = k) (beforeSort st pts params))
   \<and> length (projectScene st pts params) = length (beforeSort st pts params)"
  by (simp add: projectScene_def sort_key_stable)

lemma foldl_min_max:
  "foldl (\<lambda>(mn, mx) w. (if w < mn then w else mn, if w > mx then w else mx)) (a, b) ws
     = (Min (insert a (set ws)), Max (insert b (set ws)))"
proof (induction ws arbitrary: a b)
  case Nil
  then show ?case by simp
next
  case (Cons w ws)
  have 1: "Min (insert (if w < a then w else a) (set ws)) = Min (insert a (insert w (set ws)))"
    by (cases "set ws = {}") (auto simp: min_def Min_insert)
  have 2: "Max (insert (if b < w then w else b) (set ws)) = Max (insert b (insert w (set ws)))"
    by (cases "set ws = {}") (auto simp: max_def Max_insert)
  show ?case using 1 2 by (simp add: Cons.IH)
qed

lemma min_max_eq: "vs \<noteq> [] \<Longrightarrow> min_max vs = (Min (set vs), Max (set vs))"
  by (cases vs) (simp_all add: foldl_min_max)

lemma shade_fields:
  "depth (shade params mn zr b) = depth b" "perspScale (shade params mn zr b) = perspScale b"
  "poseIndex (shade params mn zr b) = poseIndex b"
  by (simp_all add: shade_def Let_def)

lemma darkBand_depth: "map depth (darkBand params bs) = map depth bs"
  by (simp add: darkBand_def Let_def split: prod.splits)

lemma darkBand_perspScale: "map perspScale (darkBand params bs) = map perspScale bs"
  by (simp add: darkBand_def Let_def split: prod.splits)

lemma beforeSort_depth:
  "map depth (beforeSort st pts params) = map depth (gather st params 0 pts)"
  by (simp add: beforeSort_def Let_def darkBand_depth shade_fields split: prod.splits)

lemma beforeSort_perspScale:
  "map perspScale (beforeSort st pts params) = map perspScale (gather st params 0 pts)"
  by (simp add: beforeSort_def Let_def darkBand_perspScale shade_fields split: prod.splits)

lemma beforeSort_pair:
  "map (\<lambda>b. (depth b, perspScale b)) (beforeSort st pts params)
     = map (\<lambda>b. (depth b, perspScale b)) (gather st params 0 pts)"
proof -
  have "map (\<lambda>b. (depth b, perspScale b)) xs = zip (map depth xs) (map perspScale xs)" for xs :: "bird list"
    by (induction xs) auto
  then show ?thesis by (simp add: beforeSort_depth beforeSort_perspScale)
qed

lemma projectPoint_perspective:
  assumes "projType params = ''perspective''"
  shows "projectPoint st params i p =
           (if pz (camRotate params p) + 300 \<le> 0.1 then None
            else Some (the (projectPoint st params i p)))"
    and "projectPoint st params i p = Some b \<Longrightarrow>
           depth b = pz (camRotate params p) \<and> perspScale b = camFOV params / (depth b + 300)"
  using assms by (auto simp add: projectPoint_def Let_def split: if_splits)

lemma gather_perspective:
  assumes "projType params = ''perspective''"
  shows "length (gather st params i pts)
           = length (filter (\<lambda>p. \<not> pz (camRotate params p) + 300 \<le> 0.1) pts)"
    and "\<forall>b \<in> set (gather st params i pts).
           depth b + 300 > 0.1 \<and> perspScale b = camFOV params / (depth b + 300)"
proof (induction pts arbitrary: i)
  case Nil
  { case 1 show ?case by simp }
  { case 2 show ?case by simp }
next
  case (Cons p ps)
  { case 1 show ?case
      using Cons.IH(1)[of "Suc i"] projectPoint_perspective(1)[OF assms, of st i p]
      by (auto split: option.splits if_splits) }
  { case 2 show ?case
      using Cons.IH(2)[of "Suc i"] projectPoint_perspective[OF assms, of st i p]
      by (auto split: option.splits if_splits) }
qed

lemmas proj_eval =
  projectScene_def beforeSort_def projectPoint_def camRotate_def rotateX_def rotateY_def
  rotateZ_def main_params_def js_or_def shade_def darkBand_def js_pow_def normDepthOf_def
  poseOf_def frontView_def threeDeep_def behindCamera_def Let_def

text \<open>
  C4. In perspective mode a point whose camera-rotated z plus the camera distance
  \<open>300\<close> is at most \<open>0.1\<close> yields no primitive; every primitive the loop emits comes
  from a point with rotated z plus \<open>300\<close> above \<open>0.1\<close> and carries the perspective scale
  \<open>camFOV / (z + 300)\<close>. The scene holds one primitive for each point that is not
  culled, each with \<open>depth + 300 > 0.1\<close> and \<open>perspScale = camFOV / (depth + 300)\<close>.
\<close>

theorem perspective_culling:
  assumes "projType params = ''perspective''"
  shows "(\<forall>i p. pz (camRotate params p) + 300 \<le> 0.1 \<longrightarrow> projectPoint st params i p = None)
       \<and> (\<forall>i p b. projectPoint st params i p = Some b \<longrightarrow>
             pz (camRotate params p) + 300 > 0.1 \<and> depth b = pz (camRotate params p)
             \<and> perspScale b = camFOV params / (pz (camRotate params p) + 300))
       \<and> length (projectScene st pts params)
           = length (filter (\<lambda>p. \<not> pz (camRotate params p) + 300 \<le> 0.1) pts)
       \<and> (\<forall>b \<in> set (projectScene st pts params).
             depth b + 300 > 0.1 \<and> perspScale b = camFOV params / (depth b + 300))"
proof (intro conjI allI impI)
  fix i p
  assume "pz (camRotate params p) + 300 \<le> 0.1"
  then show "projectPoint st params i p = None"
    using projectPoint_perspective(1)[OF assms, of st i p] by simp
next
  fix i p b
  assume h: "projectPoint st params i p = Some b"
  then show "pz (camRotate params p) + 300 > 0.1"
    using projectPoint_perspective(1)[OF assms, of st i p] by (simp split: if_splits)
  from h show "depth b = pz (camRotate params p)"
    using projectPoint_perspective(2)[OF assms] by blast
  from h show "perspScale b = camFOV params / (pz (camRotate params p) + 300)"
    using projectPoint_perspective(2)[OF assms h] by simp
next
  have "length (projectScene st pts params) = length (map depth (beforeSort st pts params))"
    by (simp add: projectScene_def)
  also have "\<dots> = length (gather st params 0 pts)"
    by (simp only: beforeSort_depth length_map)
  finally show "length (projectScene st pts params)
      = length (filter (\<lambda>p. \<not> pz (camRotate params p) + 300 \<le> 0.1) pts)"
    by (simp add: gather_perspective(1)[OF assms])
next
  show "\<forall>b \<in> set (projectScene st pts params).
          depth b + 300 > 0.1 \<and> perspScale b = camFOV params / (depth b + 300)"
  proof
    fix b assume "b \<in> set (projectScene st pts params)"
    then have "b \<in> set (beforeSort st pts params)" by (simp add: projectScene_def)
    then have "(depth b, perspScale b)
        \<in> set (map (\<lambda>b. (depth b, perspScale b)) (beforeSort st pts params))"
      by force
    then obtain g where g: "g \<in> set (gather st params 0 pts)" "depth g = depth b"
        "perspScale g = perspScale b"
      unfolding beforeSort_pair by auto
    with gather_perspective(2)[OF assms, of st 0 pts]
    show "depth b + 300 > 0.1 \<and> perspScale b = camFOV params / (depth b + 300)"
      by auto
  qed
qed

theorem perspective_culling_witness:
  "projType (frontView\<lparr>projType := ''perspective''\<rparr>) = ''perspective''
   \<and> pz (camRotate (frontView\<lparr>projType := ''perspective''\<rparr>) \<lparr>px = 0, py = 0, pz = -1000\<rparr>) + 300
       \<le> 0.1
   \<and> projectPoint initial_noise (frontView\<lparr>projType := ''perspective''\<rparr>) 1
       \<lparr>px = 0, py = 0, pz = -1000\<rparr> = None
   \<and> map depth (projectScene initial_noise behindCamera (frontView\<lparr>projType := ''perspective''\<rparr>))
       = [0]
   \<and> map perspScale
        (projectScene initial_noise behindCamera (frontView\<lparr>projType := ''perspective''\<rparr>))
       = [400 / 300]"
  using perspective_culling [of "frontView\<lparr>projType := ''perspective''\<rparr>" initial_noise behindCamera]
  by (simp add: proj_eval)

lemma projectPoint_pose:
  "projectPoint st params i p = Some b \<Longrightarrow> poseIndex b = poseOf st params p"
  by (auto simp: projectPoint_def Let_def split: if_splits)

lemma poseOf_cam:
  "poseOf st (params\<lparr>camRotX := a1, camRotY := a2, camRotZ := a3\<rparr>) p = poseOf st params p"
  by (simp add: poseOf_def)

lemma projectPoint_ortho:
  "projType params \<noteq> ''perspective'' \<Longrightarrow> \<exists>b. projectPoint st params i p = Some b"
  by (simp add: projectPoint_def Let_def)

text \<open>
  C8. With pose variation enabled and \<open>poseNoiseFreq > 0\<close>, the pose index of a point is
  the \<open>[0,1]\<close>-remapped \<open>simplex3\<close> value at its world position, cut at \<open>0.35\<close>, \<open>0.55\<close> and
  \<open>0.75\<close>; under any two settings of the three camera angles that both let the point
  through, the two primitives carry the same pose index.
\<close>

theorem pose_independent_of_camera:
  assumes "poseVariation params" and "poseNoiseFreq params > 0"
    and "projectPoint st (params\<lparr>camRotX := a1, camRotY := a2, camRotZ := a3\<rparr>) i p = Some b1"
    and "projectPoint st (params\<lparr>camRotX := c1, camRotY := c2, camRotZ := c3\<rparr>) i p = Some b2"
  shows "poseIndex b1 = poseIndex b2
       \<and> poseIndex b1 =
           (let v = (simplex3 st (px p * poseNoiseFreq params) (py p * poseNoiseFreq params)
                       (pz p * poseNoiseFreq params) + 1) * 0.5
            in if v < 0.35 then 0 else if v < 0.55 then 1 else if v < 0.75 then 2 else 3)"
  using assms projectPoint_pose[OF assms(3)] projectPoint_pose[OF assms(4)]
  by (simp add: poseOf_cam) (simp add: poseOf_def Let_def)

theorem pose_independent_of_camera_witness:
  "poseVariation main_params \<and> poseNoiseFreq main_params > 0
   \<and> (\<exists>b1 b2.
         projectPoint initial_noise (main_params\<lparr>camRotX := 0, camRotY := 0, camRotZ := 0\<rparr>) 0
            \<lparr>px = 1, py = 2, pz = 3\<rparr> = Some b1
       \<and> projectPoint initial_noise (main_params\<lparr>camRotX := pi, camRotY := 1, camRotZ := 2\<rparr>) 0
            \<lparr>px = 1, py = 2, pz = 3\<rparr> = Some b2
       \<and> poseIndex b1 = poseIndex b2)"
proof -
  have pv: "poseVariation main_params" and pf: "poseNoiseFreq main_params > 0"
    by (simp_all add: main_params_def)
  obtain b1 where b1:
    "projectPoint initial_noise (main_params\<lparr>camRotX := 0, camRotY := 0, camRotZ := 0\<rparr>) 0
       \<lparr>px = 1, py = 2, pz = 3\<rparr> = Some b1"
    using projectPoint_ortho[of "main_params\<lparr>camRotX := 0, camRotY := 0, camRotZ := 0\<rparr>"
        initial_noise 0 "\<lparr>px = 1, py = 2, pz = 3\<rparr>"]
    by (auto simp: main_params_def)
  obtain b2 where b2:
    "projectPoint initial_noise (main_params\<lparr>camRotX := pi, camRotY := 1, camRotZ := 2\<rparr>) 0
       \<lparr>px = 1, py = 2, pz = 3\<rparr> = Some b2"
    using projectPoint_ortho[of "main_params\<lparr>camRotX := pi, camRotY := 1, camRotZ := 2\<rparr>"
        initial_noise 0 "\<lparr>px = 1, py = 2, pz = 3\<rparr>"]
    by (auto simp: main_params_def)
  from pose_independent_of_camera[OF pv pf b1 b2] have "poseIndex b1 = poseIndex b2" by simp
  with pv pf b1 b2 show ?thesis by blast
qed

lemma darkBand_depth_opacity:
  "map (\<lambda>b. (depth b, opacity b)) (darkBand params bs) = map (\<lambda>b. (depth b, opacity b)) bs"
  by (simp add: darkBand_def Let_def split: prod.splits)

lemma set_depth_projectScene:
  "set (map depth (projectScene st pts params)) = set (map depth (gather st params 0 pts))"
proof -
  have "set (map depth (projectScene st pts params)) = set (map depth (beforeSort st pts params))"
    by (simp add: projectScene_def)
  then show ?thesis by (simp only: beforeSort_depth)
qed

lemma beforeSort_member:
  assumes "b \<in> set (beforeSort st pts params)"
  shows "\<exists>g \<in> set (gather st params 0 pts).
           depth b = depth g
         \<and> opacity b = opacity (shade params (Min (set (map depth (gather st params 0 pts))))
               (js_or (Max (set (map depth (gather st params 0 pts)))
                       - Min (set (map depth (gather st params 0 pts)))) 1) g)"
proof -
  let ?G = "gather st params 0 pts"
  let ?mn = "Min (set (map depth ?G))" and ?mx = "Max (set (map depth ?G))"
  from assms have ne: "?G \<noteq> []" by (auto simp: beforeSort_def Let_def split: if_splits)
  then have mm: "min_max (map depth ?G) = (?mn, ?mx)" by (simp add: min_max_eq)
  let ?S = "map (shade params ?mn (js_or (?mx - ?mn) 1)) ?G"
  have bs: "beforeSort st pts params = darkBand params ?S"
    using ne mm by (simp add: beforeSort_def Let_def)
  from assms have "(depth b, opacity b) \<in> set (map (\<lambda>b. (depth b, opacity b)) (darkBand params ?S))"
    unfolding bs by force
  then have "(depth b, opacity b) \<in> set (map (\<lambda>b. (depth b, opacity b)) ?S)"
    by (simp only: darkBand_depth_opacity)
  then obtain g where "g \<in> set ?G" "depth b = depth (shade params ?mn (js_or (?mx - ?mn) 1) g)"
      "opacity b = opacity (shade params ?mn (js_or (?mx - ?mn) 1) g)"
    by auto
  then show ?thesis by (auto simp: shade_fields)
qed

lemma batchNormDepth_range:
  assumes "b \<in> set out"
  shows "0 \<le> batchNormDepth out b \<and> batchNormDepth out b \<le> 1"
proof -
  let ?D = "set (map depth out)"
  have fin: "finite ?D" and mem: "depth b \<in> ?D" using assms by auto
  have lo: "Min ?D \<le> depth b" and hi: "depth b \<le> Max ?D"
    using fin mem by (auto intro: Min_le Max_ge)
  show ?thesis
  proof (cases "Max ?D - Min ?D = 0")
    case True
    with lo hi have "depth b = Min ?D" by simp
    with True show ?thesis by (simp add: batchNormDepth_def Let_def)
  next
    case False
    with lo hi have pos: "Max ?D - Min ?D > 0" by simp
    with lo hi False show ?thesis
      by (simp add: batchNormDepth_def Let_def divide_le_eq)
  qed
qed

text \<open>
  C9 as stated fails where \<open>depthOpacityCurve = 0\<close>: the source replaces that exponent by
  \<open>1\<close>. On three points at depths \<open>0\<close>, \<open>1\<close>, \<open>2\<close> with \<open>depthOpacity = 0.3\<close> the opacities
  are \<open>0.3\<close>, \<open>0.65\<close>, \<open>1\<close>, where the stated formula gives \<open>1\<close> for each.
\<close>

theorem opacity_counterexample:
  "0 \<le> depthOpacityCurve (frontView\<lparr>depthOpacityCurve := 0\<rparr>)
   \<and> map depth (projectScene initial_noise threeDeep (frontView\<lparr>depthOpacityCurve := 0\<rparr>))
       = [0, 1, 2]
   \<and> map opacity (projectScene initial_noise threeDeep (frontView\<lparr>depthOpacityCurve := 0\<rparr>))
       = [3 / 10, 13 / 20, 1]
   \<and> map (claimedOpacity (frontView\<lparr>depthOpacityCurve := 0\<rparr>)
            (projectScene initial_noise threeDeep (frontView\<lparr>depthOpacityCurve := 0\<rparr>)))
        (projectScene initial_noise threeDeep (frontView\<lparr>depthOpacityCurve := 0\<rparr>))
       = [1, 1, 1]
   \<and> opacity (projectScene initial_noise threeDeep (frontView\<lparr>depthOpacityCurve := 0\<rparr>) ! 1)
       \<noteq> claimedOpacity (frontView\<lparr>depthOpacityCurve := 0\<rparr>)
            (projectScene initial_noise threeDeep (frontView\<lparr>depthOpacityCurve := 0\<rparr>))
            (projectScene initial_noise threeDeep (frontView\<lparr>depthOpacityCurve := 0\<rparr>) ! 1)"
  by (simp add: proj_eval claimedOpacity_def batchNormDepth_def)

text \<open>
  C9, amended. For every non-negative \<open>depthOpacityCurve\<close> and every primitive of the
  scene, the opacity is \<open>depthOpacity + (1 - depthOpacity) * normDepth ^ e\<close>, where the
  exponent \<open>e\<close> is \<open>depthOpacityCurve\<close> when that is not \<open>0\<close> and \<open>1\<close> when it is \<open>0\<close>, and
  \<open>normDepth\<close>, the depth normalised across the batch with the zero range guarded, lies
  in \<open>[0,1]\<close>.
\<close>

theorem opacity_formula:
  assumes "0 \<le> depthOpacityCurve params"
    and "b \<in> set (projectScene st pts params)"
  shows "opacity b = amendedOpacity params (projectScene st pts params) b
       \<and> 0 \<le> batchNormDepth (projectScene st pts params) b
       \<and> batchNormDepth (projectScene st pts params) b \<le> 1"
proof -
  from assms(2) have "b \<in> set (beforeSort st pts params)" by (simp add: projectScene_def)
  from beforeSort_member[OF this] obtain g where
    g: "depth b = depth g"
       "opacity b = opacity (shade params (Min (set (map depth (gather st params 0 pts))))
               (js_or (Max (set (map depth (gather st params 0 pts)))
                       - Min (set (map depth (gather st params 0 pts)))) 1) g)"
    by blast
  have "opacity b = amendedOpacity params (projectScene st pts params) b"
    unfolding g(2) amendedOpacity_def batchNormDepth_def set_depth_projectScene
    by (simp add: shade_def normDepthOf_def js_or_def Let_def g(1))
  with batchNormDepth_range[OF assms(2)] show ?thesis by simp
qed

theorem opacity_formula_witness:
  "0 \<le> depthOpacityCurve frontView
   \<and> projectScene initial_noise threeDeep frontView ! 1
       \<in> set (projectScene initial_noise threeDeep frontView)
   \<and> opacity (projectScene initial_noise threeDeep frontView ! 1) = 13 / 20
   \<and> amendedOpacity frontView (projectScene initial_noise threeDeep frontView)
        (projectScene initial_noise threeDeep frontView ! 1) = 13 / 20"
proof -
  have len: "length (projectScene initial_noise threeDeep frontView) = 3"
    by (simp add: proj_eval)
  then have mem: "projectScene initial_noise threeDeep frontView ! 1
       \<in> set (projectScene initial_noise threeDeep frontView)" by simp
  have c: "0 \<le> depthOpacityCurve frontView" by (simp add: frontView_def main_params_def)
  have op: "opacity (projectScene initial_noise threeDeep frontView ! 1) = 13 / 20"
    by (simp add: proj_eval)
  from opacity_formula[OF c mem] op c mem show ?thesis by simp
qed

section \<open>Shape sampler: termination and the attempt cap\<close>

text \<open>
  The do-while of Marsaglia's method leaves from every state of the PRNG. Each pass
  advances the state by twice the odd Mulberry32 increment, so the passes from \<open>a\<close> visit
  every state of the parity of \<open>a\<close>; the states \<open>2\<close> and \<open>5\<close> both give an accepted pair.
\<close>

lemma snd_mulberry32_next: "snd (mulberry32_next a) = a + 0x6D2B79F5"
  by (simp add: mulberry32_next_def Let_def)

lemma marsaglia_step:
  "marsaglia a =
     (if marsagliaRejects a then marsaglia (a + 0x6D2B79F5 + 0x6D2B79F5)
      else Some (marsagliaDraw a))"
  by (subst marsaglia.simps)
     (simp only: marsagliaRejects_def marsagliaDraw_def Let_def snd_mulberry32_next prod.case)

lemma marsaglia_reach:
  "\<not> marsagliaRejects (a + of_nat k * (2 * 0x6D2B79F5)) \<Longrightarrow> \<exists>m. marsaglia a = Some m"
proof (induction k arbitrary: a)
  case 0
  then have "\<not> marsagliaRejects a" by simp
  then have "marsaglia a = Some (marsagliaDraw a)" by (subst marsaglia_step) (simp only: if_False)
  then show ?case by blast
next
  case (Suc k)
  show ?case
  proof (cases "marsagliaRejects a")
    case False
    then have "marsaglia a = Some (marsagliaDraw a)" by (subst marsaglia_step) (simp only: if_False)
    then show ?thesis by blast
  next
    case True
    have "a + 0x6D2B79F5 + 0x6D2B79F5 + of_nat k * (2 * 0x6D2B79F5)
            = a + of_nat (Suc k) * (2 * 0x6D2B79F5)"
      by (simp add: algebra_simps)
    with Suc.prems
    have "\<not> marsagliaRejects (a + 0x6D2B79F5 + 0x6D2B79F5 + of_nat k * (2 * 0x6D2B79F5))"
      by (simp only: not_False_eq_True)
    from Suc.IH[OF this] True show ?thesis by (subst marsaglia_step) (simp only: if_True)
  qed
qed

lemma mulberry32_step_inverse: "(0xDC58AA5D :: u32) * 0x6D2B79F5 = 1"
  by simp

lemma orbit_reaches:
  assumes "even (t - a)"
  shows "\<exists>k. a + of_nat k * (2 * 0x6D2B79F5) = (t :: u32)"
proof -
  from assms obtain m where m: "t - a = 2 * m" unfolding dvd_def by blast
  have "of_nat (unat (m * 0xDC58AA5D)) = m * (0xDC58AA5D :: u32)" by simp
  then have "a + of_nat (unat (m * 0xDC58AA5D)) * (2 * 0x6D2B79F5)
               = a + (m * 0xDC58AA5D) * (2 * 0x6D2B79F5)" by (simp only:)
  also have "\<dots> = a + (2 * m) * (0xDC58AA5D * 0x6D2B79F5)" by (simp only: ac_simps)
  also have "\<dots> = a + 2 * m" by (simp only: mulberry32_step_inverse mult_1_right)
  also have "\<dots> = t" by (simp only: m[symmetric]) simp
  finally show ?thesis by blast
qed

lemma accepts_2: "\<not> marsagliaRejects 2"
  by (simp add: marsagliaRejects_def marsagliaDraw_def mulberry32_next_def mulberry32_out_def Let_def)

lemma accepts_5: "\<not> marsagliaRejects 5"
  by (simp add: marsagliaRejects_def marsagliaDraw_def mulberry32_next_def mulberry32_out_def Let_def)

lemma marsaglia_total: "\<exists>m. marsaglia a = Some m"
proof (cases "even (2 - a)")
  case True
  from orbit_reaches[OF this] obtain k where "a + of_nat k * (2 * 0x6D2B79F5) = 2" ..
  then have "\<not> marsagliaRejects (a + of_nat k * (2 * 0x6D2B79F5))"
    using accepts_2 by (simp only: not_False_eq_True)
  then show ?thesis by (rule marsaglia_reach)
next
  case False
  have "5 - a = (2 - a) + 3" by simp
  moreover have "odd (3 :: u32)" by simp
  ultimately have "even (5 - a)" using False by (simp only: even_add) 
  from orbit_reaches[OF this] obtain k where "a + of_nat k * (2 * 0x6D2B79F5) = 5" ..
  then have "\<not> marsagliaRejects (a + of_nat k * (2 * 0x6D2B79F5))"
    using accepts_5 by (simp only: not_False_eq_True)
  then show ?thesis by (rule marsaglia_reach)
qed

lemma ellipsoidLoop_bounds:
  "length points \<le> cnt \<Longrightarrow> attempts \<le> cnt * 20 \<Longrightarrow>
   \<exists>pts n. ellipsoidLoop st cnt rx ry rz fm dp points attempts a = Some (pts, n)
     \<and> length pts \<le> cnt \<and> n \<le> cnt * 20 \<and> (length pts = cnt \<or> n = cnt * 20)"
proof (induction st cnt rx ry rz fm dp points attempts a rule: ellipsoidLoop.induct)
  case (1 st cnt rx ry rz fm dp points attempts a)
  show ?case
  proof (cases "length points < cnt \<and> attempts < cnt * 20")
    case True
    obtain m where m: "marsaglia a = Some m" using marsaglia_total by blast
    let ?c = "ellipsoidCandidate st rx ry rz fm dp m"
    let ?points = "if fst (snd ?c) then points @ [fst ?c] else points"
    have step: "ellipsoidLoop st cnt rx ry rz fm dp points attempts a
        = ellipsoidLoop st cnt rx ry rz fm dp ?points (attempts + 1) (snd (snd ?c))"
      using True m by (subst ellipsoidLoop.simps) simp
    have "length ?points \<le> cnt" and "attempts + 1 \<le> cnt * 20" using True by auto
    from "1.IH"[OF True m this] show ?thesis unfolding step .
  next
    case False
    have "ellipsoidLoop st cnt rx ry rz fm dp points attempts a = Some (points, attempts)"
      by (subst ellipsoidLoop.simps) (simp only: False if_False)
    with False "1.prems" show ?thesis by auto
  qed
qed

lemma torusLoop_bounds:
  "length points \<le> cnt \<Longrightarrow> attempts \<le> cnt * 20 \<Longrightarrow>
   \<exists>pts n. torusLoop st cnt majorR minorR fm dp points attempts a = (pts, n)
     \<and> length pts \<le> cnt \<and> n \<le> cnt * 20 \<and> (length pts = cnt \<or> n = cnt * 20)"
proof (induction st cnt majorR minorR fm dp points attempts a rule: torusLoop.induct)
  case (1 st cnt majorR minorR fm dp points attempts a)
  show ?case
  proof (cases "length points < cnt \<and> attempts < cnt * 20")
    case True
    let ?c = "torusCandidate st majorR minorR fm dp a"
    let ?points = "if fst (snd ?c) then points @ [fst ?c] else points"
    have step: "torusLoop st cnt majorR minorR fm dp points attempts a
        = torusLoop st cnt majorR minorR fm dp ?points (attempts + 1) (snd (snd ?c))"
      using True by (subst torusLoop.simps) simp
    have "length ?points \<le> cnt" and "attempts + 1 \<le> cnt * 20" using True by auto
    from "1.IH"[OF True this] show ?thesis unfolding step .
  next
    case False
    have "torusLoop st cnt majorR minorR fm dp points attempts a = (points, attempts)"
      by (subst torusLoop.simps) (simp only: False if_False)
    with False "1.prems" show ?thesis by auto
  qed
qed

lemma sweptLoop_bounds:
  "length points \<le> cnt \<Longrightarrow> attempts \<le> cnt * 20 \<Longrightarrow>
   \<exists>pts n. sweptLoop st cnt r dp points attempts a = (pts, n)
     \<and> length pts \<le> cnt \<and> n \<le> cnt * 20 \<and> (length pts = cnt \<or> n = cnt * 20)"
proof (induction st cnt r dp points attempts a rule: sweptLoop.induct)
  case (1 st cnt r dp points attempts a)
  show ?case
  proof (cases "length points < cnt \<and> attempts < cnt * 20")
    case True
    let ?c = "sweptCandidate st r dp a"
    let ?points = "if fst (snd ?c) then points @ [fst ?c] else points"
    have step: "sweptLoop st cnt r dp points attempts a
        = sweptLoop st cnt r dp ?points (attempts + 1) (snd (snd ?c))"
      using True by (subst sweptLoop.simps) simp
    have "length ?points \<le> cnt" and "attempts + 1 \<le> cnt * 20" using True by auto
    from "1.IH"[OF True this] show ?thesis unfolding step .
  next
    case False
    have "sweptLoop st cnt r dp points attempts a = (points, attempts)"
      by (subst sweptLoop.simps) (simp only: False if_False)
    with False "1.prems" show ?thesis by auto
  qed
qed

text \<open>
  C2. For every call of a shape sampler (ellipsoid, sphere, torus, swept tube) with
  requested count \<open>cnt\<close>, the sampler returns; it makes at most \<open>20 * cnt\<close> acceptance trials
  and returns at most \<open>cnt\<close> points; it returns fewer than \<open>cnt\<close> points only when the
  \<open>20 * cnt\<close> trials are used up.
\<close>

theorem sampler_terminates_within_cap:
  "(\<exists>pts n. generateEllipsoidRun st cnt rx ry rz fm sd dp = Some (pts, n)
       \<and> generateEllipsoid st cnt rx ry rz fm sd dp = Some pts
       \<and> length pts \<le> cnt \<and> n \<le> 20 * cnt \<and> (length pts = cnt \<or> n = 20 * cnt))
   \<and> (\<exists>pts. generateSphere st cnt radius fm sd dp = Some pts \<and> length pts \<le> cnt)
   \<and> (\<exists>pts n. generateTorusRun st cnt majorR minorR fm sd dp = (pts, n)
       \<and> generateTorus st cnt majorR minorR fm sd dp = pts
       \<and> length pts \<le> cnt \<and> n \<le> 20 * cnt \<and> (length pts = cnt \<or> n = 20 * cnt))
   \<and> (\<exists>pts n. generateSweptCurveRun st cnt crossSectionR sd dp = (pts, n)
       \<and> generateSweptCurve st cnt crossSectionR sd dp = pts
       \<and> length pts \<le> cnt \<and> n \<le> 20 * cnt \<and> (length pts = cnt \<or> n = 20 * cnt))"
proof (intro conjI)
  show "\<exists>pts n. generateEllipsoidRun st cnt rx ry rz fm sd dp = Some (pts, n)
       \<and> generateEllipsoid st cnt rx ry rz fm sd dp = Some pts
       \<and> length pts \<le> cnt \<and> n \<le> 20 * cnt \<and> (length pts = cnt \<or> n = 20 * cnt)"
    using ellipsoidLoop_bounds[of "[]" cnt 0 st rx ry rz fm dp "mulberry32 sd"]
    by (auto simp: generateEllipsoidRun_def generateEllipsoid_def mult.commute)
  show "\<exists>pts. generateSphere st cnt radius fm sd dp = Some pts \<and> length pts \<le> cnt"
    using ellipsoidLoop_bounds[of "[]" cnt 0 st radius radius radius fm dp "mulberry32 sd"]
    by (auto simp: generateSphere_def generateEllipsoidRun_def generateEllipsoid_def)
  show "\<exists>pts n. generateTorusRun st cnt majorR minorR fm sd dp = (pts, n)
       \<and> generateTorus st cnt majorR minorR fm sd dp = pts
       \<and> length pts \<le> cnt \<and> n \<le> 20 * cnt \<and> (length pts = cnt \<or> n = 20 * cnt)"
    using torusLoop_bounds[of "[]" cnt 0 st majorR minorR fm dp "mulberry32 sd"]
    by (auto simp: generateTorusRun_def generateTorus_def mult.commute)
  show "\<exists>pts n. generateSweptCurveRun st cnt crossSectionR sd dp = (pts, n)
       \<and> generateSweptCurve st cnt crossSectionR sd dp = pts
       \<and> length pts \<le> cnt \<and> n \<le> 20 * cnt \<and> (length pts = cnt \<or> n = 20 * cnt)"
    using sweptLoop_bounds[of "[]" cnt 0 st crossSectionR dp "mulberry32 sd"]
    by (auto simp: generateSweptCurveRun_def generateSweptCurve_def mult.commute)
qed

section \<open>Shape sampler: the density rule\<close>















section \<open>The pipeline: determinism\<close>

lemma generateEllipsoid_total: "\<exists>pts. generateEllipsoid st cnt rx ry rz fm sd dp = Some pts"
  using ellipsoidLoop_bounds[of "[]" cnt 0 st rx ry rz fm dp "mulberry32 sd"]
  by (auto simp: generateEllipsoidRun_def generateEllipsoid_def)

lemma generateSingleCloud_total: "\<exists>pts. generateSingleCloud st params = Some pts"
  by (simp add: generateSingleCloud_def generateSphere_def generateEllipsoid_total)

lemma clusters_total: "\<exists>pts. clusters n f st params centers counts a = Some pts"
proof (induction n arbitrary: f a)
  case 0
  then show ?case by simp
next
  case (Suc n)
  show ?case
    using generateSingleCloud_total Suc.IH
    by (simp add: Let_def split: prod.splits option.splits) (metis option.distinct(1))
qed

lemma generateCloud_total:
  "\<exists>cloud. generateCloud st0 params = Some (cloud, noiseSeed (seed params))"
proof (cases "subFlocks params = 0 \<or> subFlocks params \<le> 1")
  case True
  then show ?thesis
    using generateSingleCloud_total[of "noiseSeed (seed params)" params]
    by (auto simp: generateCloud_def Let_def)
next
  case False
  then show ?thesis
    using clusters_total
    by (simp add: generateCloud_def Let_def split: prod.splits option.splits)
       (metis option.distinct(1))
qed

lemma generateCloud_state_independent: "generateCloud st1 params = generateCloud st2 params"
  by (simp add: generateCloud_def)

text \<open>
  C1. For every seed and configuration, two runs of the full pipeline (generate, deform,
  project), started in any two states of the process-wide noise table, both return, and
  return the same sequence of primitives: the permutation table is reseeded from the seed
  before it is read, and the cluster PRNGs and the jitter hash are functions of the seed
  and the index.
\<close>

theorem pipeline_deterministic:
  "\<exists>out. pipeline st1 params = Some out \<and> pipeline st2 params = Some out"
proof -
  obtain cloud where c: "generateCloud st1 params = Some (cloud, noiseSeed (seed params))"
    using generateCloud_total by blast
  then have c2: "generateCloud st2 params = Some (cloud, noiseSeed (seed params))"
    by (simp add: generateCloud_state_independent[of st2 params st1])
  show ?thesis by (simp add: pipeline_def c c2 split: prod.splits)
qed

end
